theory Spec2Isabelle
  imports Main
begin

section \<open>Errors\<close>

text \<open>
  The exceptions the modelled code raises, catches or passes on.  \<open>PathSpecError\<close> is
  the invalid-descriptor error, \<open>BackEndError\<close> the backend-invariant error, \<open>KeyError\<close>
  is what \<^verbatim>\<open>tarfile.getmember\<close> raises for a missing member, \<open>IOError\<close> and
  \<open>ValueError\<close> stand for what the resolver, a decoder or \<^verbatim>\<open>open()\<close> of a file object
  may raise, \<open>AttributeError\<close> is an attribute read on \<^verbatim>\<open>None\<close> and \<open>TypeError\<close> is
  \<^verbatim>\<open>len(None)\<close>.
\<close>

datatype error =
    PathSpecError
  | BackEndError
  | KeyError
  | IOError
  | ValueError
  | AttributeError
  | TypeError

section \<open>Path specifications\<close>

text \<open>
  A path specification is a chain of layers.  The attributes are the ones the code reads
  with \<^verbatim>\<open>getattr(path_spec, name, None)\<close>: an attribute that a path specification
  does not carry reads as \<open>None\<close>.  A string is the list of its characters, as
  \<^verbatim>\<open>len\<close>, slicing and \<^verbatim>\<open>startswith\<close> see it.
\<close>

datatype path_spec = PathSpec
  (type_indicator: string)
  (location: "string option")
  (part_index: "int option")
  (start_offset: "int option")
  (parent: "path_spec option")

text \<open>
  Modelled from the spec: \<^verbatim>\<open>PathSpec.HasParent\<close> and the type indicator constants of
  \<^verbatim>\<open>dfvfs.lib.definitions\<close> are not among the source files.  Section 4.1 lists
  \<open>has_parent()\<close> among a descriptor's operations: whether the \<open>parent\<close> reference is
  another descriptor rather than none.
\<close>

definition HasParent :: "path_spec \<Rightarrow> bool" where
  "HasParent ps = (parent ps \<noteq> None)"

definition TYPE_INDICATOR_TSK_PARTITION :: string where
  "TYPE_INDICATOR_TSK_PARTITION = ''TSK_PARTITION''"

text \<open>
  Modelled from the spec: the constructor \<^verbatim>\<open>TSKPartitionPathSpec(**kwargs)\<close> of
  \<^verbatim>\<open>dfvfs.path.tsk_partition_path_spec\<close> is not among the source files.  Section 4.1:
  a descriptor is built from its kind, an optional parent and the kind-specific fields,
  and construction "fails with an invalid-descriptor error if a kind requiring a parent is
  constructed without one".  Keyword arguments that are not passed stay \<open>None\<close>.
\<close>

definition TSKPartitionPathSpec ::
  "string option \<Rightarrow> int option \<Rightarrow> int option \<Rightarrow> path_spec option \<Rightarrow> error + path_spec" where
  "TSKPartitionPathSpec loc idx off par =
     (if par = None then Inl PathSpecError
      else Inr (PathSpec TYPE_INDICATOR_TSK_PARTITION loc idx off par))"

section \<open>The native volume\<close>

text \<open>
  A record of the native volume system (a \<^verbatim>\<open>pytsk3.TSK_VS_PART_INFO\<close>) and the volume
  that lists the records in on-disk order.
\<close>

record tsk_vs_part =
  allocated :: bool
  start :: "int option"
  len :: "int option"

record tsk_volume =
  block_size :: int
  parts :: "tsk_vs_part list"

text \<open>
  Modelled from the spec: the helpers of \<^verbatim>\<open>dfvfs.lib.tsk_partition\<close> are not among the
  source files.  The spec names what they read off a record: whether it is allocated, the
  start sector "when the record reports a start sector", the number of sectors "when
  available", and the volume's bytes per sector.
\<close>

definition TSKVsPartIsAllocated :: "tsk_vs_part \<Rightarrow> bool" where
  "TSKVsPartIsAllocated p = allocated p"

definition TSKVsPartGetStartSector :: "tsk_vs_part \<Rightarrow> int option" where
  "TSKVsPartGetStartSector p = start p"

definition TSKVsPartGetNumberOfSectors :: "tsk_vs_part \<Rightarrow> int option" where
  "TSKVsPartGetNumberOfSectors p = len p"

definition TSKVolumeGetBytesPerSector :: "tsk_volume \<Rightarrow> int" where
  "TSKVolumeGetBytesPerSector v = block_size v"

text \<open>
  The partition file system as far as the entries use it: the class constant
  \<^verbatim>\<open>LOCATION_ROOT\<close> and the volume that \<^verbatim>\<open>GetTSKVolume()\<close> returns.
\<close>

record tsk_partition_file_system =
  LOCATION_ROOT :: string
  GetTSKVolume :: tsk_volume

section \<open>Formatting a partition number\<close>

text \<open>\<^verbatim>\<open>u'/p{0:d}'.format(n)\<close>: the decimal digits of \<open>n\<close>, with a minus sign below zero.\<close>

definition digit_char :: "nat \<Rightarrow> char" where
  "digit_char d = ''0123456789'' ! (d mod 10)"

function decimal :: "nat \<Rightarrow> string" where
  "decimal n = (if n < 10 then [digit_char n] else decimal (n div 10) @ [digit_char (n mod 10)])"
  by pat_completeness auto
termination
  by (relation "measure id") auto

declare decimal.simps [simp del]

definition format_d :: "int \<Rightarrow> string" where
  "format_d i = (if i < 0 then CHR ''-'' # decimal (nat (- i)) else decimal (nat i))"

definition partition_location :: "int \<Rightarrow> string" where
  "partition_location partition_index = ''/p'' @ format_d partition_index"

section \<open>TSKPartitionDirectory._EntriesGenerator\<close>

text \<open>
  The body of the \<^verbatim>\<open>for\<close> loop for one record: the updated allocated-only counter and
  the keyword arguments handed to the constructor.  \<open>part_index\<close> and \<open>partition_index\<close>
  are the two counters as they stand when the record is reached.
\<close>

definition entry_kwargs ::
  "int \<Rightarrow> path_spec \<Rightarrow> int \<Rightarrow> int \<Rightarrow> tsk_vs_part
     \<Rightarrow> int \<times> (string option \<times> int option \<times> int option \<times> path_spec option)" where
  "entry_kwargs bytes_per_sector ps pidx aidx p =
     (let (aidx', loc) =
            (if TSKVsPartIsAllocated p
             then (aidx + 1, Some (partition_location (aidx + 1)))
             else (aidx, None));
          off = (case TSKVsPartGetStartSector p of
                   None \<Rightarrow> None
                 | Some start_sector \<Rightarrow> Some (start_sector * bytes_per_sector))
      in (aidx', (loc, Some pidx, off, parent ps)))"

text \<open>
  The loop over \<^verbatim>\<open>list(tsk_volume)\<close>, producing every yielded path specification in
  order.  A constructor failure ends the walk with that error.
\<close>

fun entries_loop ::
  "int \<Rightarrow> path_spec \<Rightarrow> int \<Rightarrow> int \<Rightarrow> tsk_vs_part list \<Rightarrow> error + path_spec list" where
  "entries_loop bps ps pidx aidx [] = Inr []"
| "entries_loop bps ps pidx aidx (p # rest) =
     (case entry_kwargs bps ps pidx aidx p of
        (aidx', (loc, idx, off, par)) \<Rightarrow>
          (case TSKPartitionPathSpec loc idx off par of
             Inl e \<Rightarrow> Inl e
           | Inr child \<Rightarrow>
               (case entries_loop bps ps (pidx + 1) aidx' rest of
                  Inl e \<Rightarrow> Inl e
                | Inr children \<Rightarrow> Inr (child # children))))"

text \<open>Only the virtual root has directory entries: the two early returns.\<close>

definition is_root_directory :: "tsk_partition_file_system \<Rightarrow> path_spec \<Rightarrow> bool" where
  "is_root_directory fs ps =
     (\<not> (part_index ps \<noteq> None \<or> start_offset ps \<noteq> None)
      \<and> \<not> (location ps = None \<or> location ps \<noteq> Some (LOCATION_ROOT fs)))"

definition EntriesGenerator ::
  "tsk_partition_file_system \<Rightarrow> path_spec \<Rightarrow> error + path_spec list" where
  "EntriesGenerator fs ps =
     (if part_index ps \<noteq> None \<or> start_offset ps \<noteq> None then Inr []
      else if location ps = None \<or> location ps \<noteq> Some (LOCATION_ROOT fs) then Inr []
      else
        let tsk_volume = GetTSKVolume fs;
            bytes_per_sector = TSKVolumeGetBytesPerSector tsk_volume
        in entries_loop bytes_per_sector ps 0 0 (parts tsk_volume))"

section \<open>The generator, one \<^verbatim>\<open>next()\<close> at a time\<close>

text \<open>
  \<^verbatim>\<open>_EntriesGenerator\<close> is a Python generator: its body runs only while a consumer asks
  for the next item, up to the next \<^verbatim>\<open>yield\<close>.  The state of a suspended generator is
  its local variables: the two counters and what is left of \<^verbatim>\<open>list(tsk_volume)\<close>.
  \<open>native_io\<close> observes the native volume: how often it was iterated from the start and
  how many records were fetched from it.
\<close>

record native_io =
  walks :: nat
  records_read :: nat

datatype entries_generator =
    NotStarted
  | Suspended int int "tsk_vs_part list"
  | Finished

text \<open>\<^verbatim>\<open>list(tsk_volume)\<close>: one walk of the native iterator that fetches every record.\<close>

definition list_tsk_volume :: "tsk_volume \<Rightarrow> native_io \<Rightarrow> tsk_vs_part list \<times> native_io" where
  "list_tsk_volume v io =
     (parts v, io\<lparr>walks := walks io + 1, records_read := records_read io + length (parts v)\<rparr>)"

text \<open>The native volume as one more \<^verbatim>\<open>list(tsk_volume)\<close> leaves it.\<close>

definition walked :: "tsk_partition_file_system \<Rightarrow> native_io \<Rightarrow> native_io" where
  "walked fs io = snd (list_tsk_volume (GetTSKVolume fs) io)"

text \<open>One turn of the \<^verbatim>\<open>for\<close> loop, up to its \<^verbatim>\<open>yield\<close> or to the end of the list.\<close>

definition loop_resume ::
  "int \<Rightarrow> path_spec \<Rightarrow> int \<Rightarrow> int \<Rightarrow> tsk_vs_part list
     \<Rightarrow> (error + path_spec option) \<times> entries_generator" where
  "loop_resume bps ps pidx aidx remaining =
     (case remaining of
        [] \<Rightarrow> (Inr None, Finished)
      | p # rest \<Rightarrow>
          (case entry_kwargs bps ps pidx aidx p of
             (aidx', (loc, idx, off, par)) \<Rightarrow>
               (case TSKPartitionPathSpec loc idx off par of
                  Inl e \<Rightarrow> (Inl e, Finished)
                | Inr child \<Rightarrow> (Inr (Some child), Suspended (pidx + 1) aidx' rest))))"

definition gen_next ::
  "tsk_partition_file_system \<Rightarrow> path_spec \<Rightarrow> entries_generator \<times> native_io
     \<Rightarrow> (error + path_spec option) \<times> entries_generator \<times> native_io" where
  "gen_next fs ps s =
     (case s of
        (NotStarted, io) \<Rightarrow>
          (if part_index ps \<noteq> None \<or> start_offset ps \<noteq> None then (Inr None, Finished, io)
           else if location ps = None \<or> location ps \<noteq> Some (LOCATION_ROOT fs)
           then (Inr None, Finished, io)
           else
             let tsk_volume = GetTSKVolume fs;
                 bytes_per_sector = TSKVolumeGetBytesPerSector tsk_volume;
                 (records, io') = list_tsk_volume tsk_volume io;
                 (y, g) = loop_resume bytes_per_sector ps 0 0 records
             in (y, g, io'))
      | (Suspended pidx aidx remaining, io) \<Rightarrow>
          (let (y, g) = loop_resume (TSKVolumeGetBytesPerSector (GetTSKVolume fs)) ps pidx aidx remaining
           in (y, g, io))
      | (Finished, io) \<Rightarrow> (Inr None, Finished, io))"

text \<open>The first \<open>n\<close> calls of \<^verbatim>\<open>next()\<close> on a generator, with what each returned.\<close>

fun gen_steps ::
  "nat \<Rightarrow> tsk_partition_file_system \<Rightarrow> path_spec \<Rightarrow> entries_generator \<times> native_io
     \<Rightarrow> (error + path_spec option) list \<times> entries_generator \<times> native_io" where
  "gen_steps 0 fs ps s = ([], s)"
| "gen_steps (Suc n) fs ps s =
     (case gen_next fs ps s of
        (y, s') \<Rightarrow> (case gen_steps n fs ps s' of (ys, s'') \<Rightarrow> (y # ys, s'')))"

text \<open>
  What is left to yield, at most: the measure under which a \<^verbatim>\<open>for\<close> loop over the
  generator ends.
\<close>

fun gen_remaining :: "tsk_partition_file_system \<Rightarrow> entries_generator \<Rightarrow> nat" where
  "gen_remaining fs NotStarted = Suc (length (parts (GetTSKVolume fs)))"
| "gen_remaining fs (Suspended pidx aidx remaining) = length remaining"
| "gen_remaining fs Finished = 0"

lemma loop_resume_state:
  "loop_resume bps ps pidx aidx remaining = (Inr (Some c), g)
     \<Longrightarrow> \<exists>pidx' aidx' rest. g = Suspended pidx' aidx' rest \<and> length rest < length remaining"
  by (cases remaining)
     (auto simp: loop_resume_def split: prod.splits sum.splits)

lemma gen_next_decreases:
  assumes "gen_next fs ps (g, io) = (Inr (Some c), g', io')"
  shows "gen_remaining fs g' < gen_remaining fs g"
proof (cases g)
  case NotStarted
  with assms have
    "loop_resume (TSKVolumeGetBytesPerSector (GetTSKVolume fs)) ps 0 0 (parts (GetTSKVolume fs))
       = (Inr (Some c), g')"
    by (auto simp: gen_next_def list_tsk_volume_def Let_def split: if_splits prod.splits)
  from loop_resume_state [OF this] NotStarted show ?thesis by auto
next
  case (Suspended pidx aidx remaining)
  with assms have
    "loop_resume (TSKVolumeGetBytesPerSector (GetTSKVolume fs)) ps pidx aidx remaining
       = (Inr (Some c), g')"
    by (auto simp: gen_next_def Let_def split: prod.splits)
  from loop_resume_state [OF this] Suspended show ?thesis by auto
next
  case Finished
  with assms show ?thesis by (simp add: gen_next_def)
qed

text \<open>
  \<^verbatim>\<open>for path_spec in generator\<close>: calls \<^verbatim>\<open>next()\<close> until the generator is exhausted or
  raises, and collects what it yielded.
\<close>

function gen_drain ::
  "tsk_partition_file_system \<Rightarrow> path_spec \<Rightarrow> entries_generator \<times> native_io
     \<Rightarrow> (error + path_spec list) \<times> native_io" where
  "gen_drain fs ps (g, io) =
     (case gen_next fs ps (g, io) of
        (Inl e, g', io') \<Rightarrow> (Inl e, io')
      | (Inr None, g', io') \<Rightarrow> (Inr [], io')
      | (Inr (Some c), g', io') \<Rightarrow>
          (case gen_drain fs ps (g', io') of
             (Inl e, io'') \<Rightarrow> (Inl e, io'')
           | (Inr cs, io'') \<Rightarrow> (Inr (c # cs), io'')))"
  by pat_completeness auto
termination
  by (relation "measure (\<lambda>(fs, ps, g, io). gen_remaining fs g)")
     (auto dest: gen_next_decreases [OF sym])

declare gen_drain.simps [simp del]

section \<open>TSKPartitionFileEntry\<close>

text \<open>
  Modelled from the spec: the class \<^verbatim>\<open>VFSStat\<close> of \<^verbatim>\<open>dfvfs.vfs.vfs_stat\<close> is not among
  the source files.  The spec's stat summary has a size, a type (file or directory) and an
  allocation status; a fresh stat object has none of them assigned, and \<open>None\<close> is an
  attribute that \<^verbatim>\<open>_GetStat\<close> left as the class initialised it ("unknown").  The
  attributes \<^verbatim>\<open>size\<close>, \<^verbatim>\<open>type\<close> and \<^verbatim>\<open>is_allocated\<close> carry the suffix \<open>_attr\<close>.
\<close>

datatype stat_type = TYPE_DIRECTORY | TYPE_FILE

record vfs_stat =
  size_attr :: "int option"
  type_attr :: "stat_type option"
  is_allocated_attr :: "bool option"

definition VFSStat :: vfs_stat where
  "VFSStat = \<lparr>size_attr = None, type_attr = None, is_allocated_attr = None\<rparr>"

text \<open>
  A \<^verbatim>\<open>TSKPartitionFile\<close> object: \<open>fo_id\<close> is the identity of the object (the number of
  file objects constructed before it), the other fields are what its constructor was given
  and whether \<^verbatim>\<open>open()\<close> has succeeded on it.
\<close>

record file_object =
  fo_id :: nat
  fo_tsk_volume :: tsk_volume
  fo_tsk_vs_part :: "tsk_vs_part option"
  fo_is_open :: bool

record tsk_partition_directory =
  dir_file_system :: tsk_partition_file_system
  dir_path_spec :: path_spec

text \<open>
  The attributes of a file entry.  A leading underscore of the source is written as the
  prefix \<open>p_\<close>: \<open>p_file_object\<close> is \<^verbatim>\<open>self._file_object\<close>.
\<close>

record tsk_partition_file_entry =
  p_file_system :: tsk_partition_file_system
  entry_path_spec :: path_spec
  p_is_root :: bool
  p_is_virtual :: bool
  p_file_object :: "file_object option"
  p_name :: "string option"
  p_tsk_vs_part :: "tsk_vs_part option"
  p_stat_object :: "vfs_stat option"
  p_directory :: "tsk_partition_directory option"

text \<open>\<^verbatim>\<open>__init__\<close>, with \<^verbatim>\<open>_stat_object\<close> and \<^verbatim>\<open>_directory\<close> as the base class leaves them.\<close>

definition TSKPartitionFileEntry ::
  "tsk_partition_file_system \<Rightarrow> path_spec \<Rightarrow> bool \<Rightarrow> bool \<Rightarrow> tsk_partition_file_entry" where
  "TSKPartitionFileEntry fs ps is_root is_virtual =
     \<lparr>p_file_system = fs, entry_path_spec = ps, p_is_root = is_root, p_is_virtual = is_virtual,
      p_file_object = None, p_name = None, p_tsk_vs_part = None, p_stat_object = None,
      p_directory = None\<rparr>"

text \<open>
  \<^verbatim>\<open>tsk_partition.GetTSKVsPartByPathSpec\<close> is not among the source files: the first
  component of what it returns, the record found for a path specification or \<open>None\<close>, is
  the parameter \<open>lookup\<close> of everything that calls it.
\<close>

type_synonym vs_part_lookup = "tsk_volume \<Rightarrow> path_spec \<Rightarrow> tsk_vs_part option"

definition GetTSKVsPart :: "vs_part_lookup \<Rightarrow> tsk_partition_file_entry \<Rightarrow> tsk_vs_part option" where
  "GetTSKVsPart lookup e = lookup (GetTSKVolume (p_file_system e)) (entry_path_spec e)"

text \<open>
  What \<^verbatim>\<open>self._tsk_vs_part\<close> holds once \<^verbatim>\<open>_GetStat\<close> or \<^verbatim>\<open>GetFileObject\<close> has run
  its first two lines: the record cached before, or else the one the descriptor locates.
\<close>

definition located_part :: "vs_part_lookup \<Rightarrow> tsk_partition_file_entry \<Rightarrow> tsk_vs_part option" where
  "located_part lookup e = (if p_tsk_vs_part e = None then GetTSKVsPart lookup e else p_tsk_vs_part e)"

text \<open>
  \<^verbatim>\<open>_GetStat\<close> returns the stat object or raises, and in both cases has stored the record
  it looked up in \<^verbatim>\<open>self._tsk_vs_part\<close>.  \<^verbatim>\<open>if number_of_sectors:\<close> is Python's truth
  test: false for \<^verbatim>\<open>None\<close> and for \<open>0\<close>.  On the last assignment the record is present:
  the entry is not virtual, and the \<^verbatim>\<open>raise\<close> above was not taken.
\<close>

definition GetStat ::
  "vs_part_lookup \<Rightarrow> tsk_partition_file_entry \<Rightarrow> (error + vfs_stat) \<times> tsk_partition_file_entry" where
  "GetStat lookup e =
     (let e1 = (if p_tsk_vs_part e = None then e\<lparr>p_tsk_vs_part := GetTSKVsPart lookup e\<rparr> else e);
          stat_object = VFSStat
      in if \<not> p_is_virtual e1 \<and> p_tsk_vs_part e1 = None then (Inl BackEndError, e1)
         else
           let tsk_volume = GetTSKVolume (p_file_system e1);
               bytes_per_sector = TSKVolumeGetBytesPerSector tsk_volume;
               stat1 = (case p_tsk_vs_part e1 of
                          None \<Rightarrow> stat_object
                        | Some part \<Rightarrow>
                            (case TSKVsPartGetNumberOfSectors part of
                               None \<Rightarrow> stat_object
                             | Some number_of_sectors \<Rightarrow>
                                 if number_of_sectors \<noteq> 0
                                 then stat_object\<lparr>size_attr := Some (number_of_sectors * bytes_per_sector)\<rparr>
                                 else stat_object));
               stat2 = (if p_is_virtual e1 then stat1\<lparr>type_attr := Some TYPE_DIRECTORY\<rparr>
                        else stat1\<lparr>type_attr := Some TYPE_FILE\<rparr>);
               stat3 = (if \<not> p_is_virtual e1
                        then (case p_tsk_vs_part e1 of
                                None \<Rightarrow> stat2
                              | Some part \<Rightarrow> stat2\<lparr>is_allocated_attr := Some (TSKVsPartIsAllocated part)\<rparr>)
                        else stat2)
           in (Inr stat3, e1))"

definition GetDirectory ::
  "vs_part_lookup \<Rightarrow> tsk_partition_file_entry
     \<Rightarrow> (error + tsk_partition_directory option) \<times> tsk_partition_file_entry" where
  "GetDirectory lookup e =
     (case (if p_stat_object e = None
            then (case GetStat lookup e of
                    (Inl err, e1) \<Rightarrow> (Inl err, e1)
                  | (Inr st, e1) \<Rightarrow> (Inr (), e1\<lparr>p_stat_object := Some st\<rparr>))
            else (Inr (), e)) of
        (Inl err, e1) \<Rightarrow> (Inl err, e1)
      | (Inr u, e1) \<Rightarrow>
          (case p_stat_object e1 of
             None \<Rightarrow> (Inr None, e1)
           | Some st \<Rightarrow>
               if type_attr st = Some TYPE_DIRECTORY
               then (Inr (Some \<lparr>dir_file_system = p_file_system e1,
                                 dir_path_spec = entry_path_spec e1\<rparr>), e1)
               else (Inr None, e1)))"

text \<open>
  Modelled from the spec: the property \<^verbatim>\<open>entries\<close> of the base class
  \<^verbatim>\<open>file_entry.Directory\<close> is not among the source files.  Sections 4.6 and 9: the
  children are "a producer of a finite sequence of descriptors, re-created fresh on every
  enumeration request rather than cached as a stateful iterator".  Every read of
  \<^verbatim>\<open>entries\<close> starts a new \<^verbatim>\<open>_EntriesGenerator()\<close>; the result is what a loop over it
  collects.
\<close>

definition entries ::
  "tsk_partition_directory \<Rightarrow> native_io \<Rightarrow> (error + path_spec list) \<times> native_io" where
  "entries d io = gen_drain (dir_file_system d) (dir_path_spec d) (NotStarted, io)"

text \<open>
  \<^verbatim>\<open>sub_file_entries\<close>, consumed to its end: the entries yielded, the file entry with what
  it has cached, and the native volume as the walk left it.
\<close>

definition sub_file_entries ::
  "vs_part_lookup \<Rightarrow> tsk_partition_file_entry \<Rightarrow> native_io
     \<Rightarrow> (error + tsk_partition_file_entry list) \<times> tsk_partition_file_entry \<times> native_io" where
  "sub_file_entries lookup e io =
     (case (if p_directory e = None
            then (case GetDirectory lookup e of
                    (Inl err, e1) \<Rightarrow> (Inl err, e1)
                  | (Inr d, e1) \<Rightarrow> (Inr (), e1\<lparr>p_directory := d\<rparr>))
            else (Inr (), e)) of
        (Inl err, e1) \<Rightarrow> (Inl err, e1, io)
      | (Inr u, e1) \<Rightarrow>
          (case p_directory e1 of
             None \<Rightarrow> (Inr [], e1, io)
           | Some d \<Rightarrow>
               (case entries d io of
                  (Inl err, io') \<Rightarrow> (Inl err, e1, io')
                | (Inr path_specs, io') \<Rightarrow>
                    (Inr (map (\<lambda>path_spec. TSKPartitionFileEntry (p_file_system e1) path_spec False False)
                            path_specs), e1, io'))))"

text \<open>
  \<^verbatim>\<open>GetFileObject\<close>.  \<open>n\<close> counts the \<^verbatim>\<open>TSKPartitionFile\<close> objects constructed so far.
  \<^verbatim>\<open>TSKPartitionFile.open\<close> is not among the source files: whether it raises on a given
  object is the parameter \<open>open_error\<close>.  The assignment to \<^verbatim>\<open>self._file_object\<close> comes
  before \<^verbatim>\<open>open()\<close>, so the object is cached also when \<^verbatim>\<open>open()\<close> raises.
\<close>

definition GetFileObject ::
  "(file_object \<Rightarrow> error option) \<Rightarrow> vs_part_lookup \<Rightarrow> tsk_partition_file_entry \<Rightarrow> nat
     \<Rightarrow> (error + file_object) \<times> tsk_partition_file_entry \<times> nat" where
  "GetFileObject open_error lookup e n =
     (case p_file_object e of
        Some file_object \<Rightarrow> (Inr file_object, e, n)
      | None \<Rightarrow>
          let e1 = (if p_tsk_vs_part e = None then e\<lparr>p_tsk_vs_part := GetTSKVsPart lookup e\<rparr> else e);
              tsk_volume = GetTSKVolume (p_file_system e1);
              file_object = \<lparr>fo_id = n, fo_tsk_volume = tsk_volume,
                             fo_tsk_vs_part = p_tsk_vs_part e1, fo_is_open = False\<rparr>
          in (case open_error file_object of
                Some err \<Rightarrow> (Inl err, e1\<lparr>p_file_object := Some file_object\<rparr>, n + 1)
              | None \<Rightarrow>
                  (Inr (file_object\<lparr>fo_is_open := True\<rparr>),
                   e1\<lparr>p_file_object := Some (file_object\<lparr>fo_is_open := True\<rparr>)\<rparr>, n + 1)))"

text \<open>
  A later call of \<^verbatim>\<open>GetFileObject\<close> on the same entry instance: it finds the entry and
  the count of constructed objects as the call before it left them.
\<close>

definition call_GetFileObject ::
  "(file_object \<Rightarrow> error option) \<Rightarrow> vs_part_lookup
     \<Rightarrow> (error + file_object) \<times> tsk_partition_file_entry \<times> nat
     \<Rightarrow> (error + file_object) \<times> tsk_partition_file_entry \<times> nat" where
  "call_GetFileObject open_error lookup s =
     (case s of (r, e, n) \<Rightarrow> GetFileObject open_error lookup e n)"

section \<open>Opening a layer: TARFileSystem._Open and VhdiFile._OpenFileObject\<close>

text \<open>
  The parent's file object is a handle.  What the code calls outside itself is the
  environment: the resolver's \<^verbatim>\<open>OpenFileObject\<close>, the decoders \<^verbatim>\<open>tarfile.open\<close> and
  \<^verbatim>\<open>pyvhdi.file.open_file_object\<close>, and \<^verbatim>\<open>close()\<close> of a file object; each may raise.
  Every such call is recorded, in order, as an event: the I/O an opener has attempted.
\<close>

type_synonym handle = nat

datatype tar_info = TarInfo (tar_name: string)

record tar_file =
  members :: "tar_info list"

datatype vhdi_file = VhdiFileOn handle

datatype io_event =
    ResolverOpenFileObject path_spec "error + handle"
  | TarfileOpen handle
  | PyvhdiOpenFileObject handle
  | FileObjectClose handle

record environment =
  resolver_OpenFileObject :: "path_spec \<Rightarrow> error + handle"
  tarfile_open :: "handle \<Rightarrow> error + tar_file"
  pyvhdi_open_file_object :: "handle \<Rightarrow> error option"
  file_object_close :: "handle \<Rightarrow> error option"

record tar_file_system =
  tfs_file_object :: "handle option"
  tfs_tar_file :: "tar_file option"
  tfs_encoding :: string

definition TAR_LOCATION_ROOT :: string where
  "TAR_LOCATION_ROOT = ''/''"

text \<open>
  \<^verbatim>\<open>TARFileSystem._Open\<close>: the file system as the call leaves it, or the exception, with
  the events of the call.  The bare \<^verbatim>\<open>except:\<close> closes the file object and raises the
  exception again; should \<^verbatim>\<open>close()\<close> itself raise, that exception is the one that leaves
  the handler.
\<close>

definition TARFileSystem_Open ::
  "environment \<Rightarrow> tar_file_system \<Rightarrow> path_spec \<Rightarrow> (error + tar_file_system) \<times> io_event list" where
  "TARFileSystem_Open env fs path_spec =
     (if \<not> HasParent path_spec then (Inl PathSpecError, [])
      else
        (case parent path_spec of
           None \<Rightarrow> (Inl PathSpecError, [])
         | Some par \<Rightarrow>
             (case resolver_OpenFileObject env par of
                Inl e \<Rightarrow> (Inl e, [ResolverOpenFileObject par (Inl e)])
              | Inr file_object \<Rightarrow>
                  (case tarfile_open env file_object of
                     Inl e \<Rightarrow>
                       (case file_object_close env file_object of
                          Some e' \<Rightarrow>
                            (Inl e', [ResolverOpenFileObject par (Inr file_object),
                                      TarfileOpen file_object, FileObjectClose file_object])
                        | None \<Rightarrow>
                            (Inl e, [ResolverOpenFileObject par (Inr file_object),
                                     TarfileOpen file_object, FileObjectClose file_object]))
                   | Inr tar \<Rightarrow>
                       (Inr (fs\<lparr>tfs_file_object := Some file_object, tfs_tar_file := Some tar\<rparr>),
                        [ResolverOpenFileObject par (Inr file_object), TarfileOpen file_object])))))"

text \<open>\<^verbatim>\<open>VhdiFile._OpenFileObject\<close>: the opened \<^verbatim>\<open>pyvhdi.file\<close>, or the exception.\<close>

definition VhdiFile_OpenFileObject ::
  "environment \<Rightarrow> path_spec \<Rightarrow> (error + vhdi_file) \<times> io_event list" where
  "VhdiFile_OpenFileObject env path_spec =
     (if \<not> HasParent path_spec then (Inl PathSpecError, [])
      else
        (case parent path_spec of
           None \<Rightarrow> (Inl PathSpecError, [])
         | Some par \<Rightarrow>
             (case resolver_OpenFileObject env par of
                Inl e \<Rightarrow> (Inl e, [ResolverOpenFileObject par (Inl e)])
              | Inr file_object \<Rightarrow>
                  (case pyvhdi_open_file_object env file_object of
                     Some e \<Rightarrow>
                       (Inl e, [ResolverOpenFileObject par (Inr file_object),
                                PyvhdiOpenFileObject file_object])
                   | None \<Rightarrow>
                       (Inr (VhdiFileOn file_object),
                        [ResolverOpenFileObject par (Inr file_object),
                         PyvhdiOpenFileObject file_object])))))"

text \<open>
  The file objects that a run of events leaves open: one the resolver handed out is held
  until a \<^verbatim>\<open>close()\<close> on it.
\<close>

fun held_after :: "handle list \<Rightarrow> io_event list \<Rightarrow> handle list" where
  "held_after held [] = held"
| "held_after held (ResolverOpenFileObject ps (Inr h) # evs) = held_after (h # held) evs"
| "held_after held (ResolverOpenFileObject ps (Inl e) # evs) = held_after held evs"
| "held_after held (FileObjectClose h # evs) = held_after (remove1 h held) evs"
| "held_after held (TarfileOpen h # evs) = held_after held evs"
| "held_after held (PyvhdiOpenFileObject h # evs) = held_after held evs"

section \<open>TARFileSystem: looking entries up\<close>

text \<open>
  Python's \<^verbatim>\<open>tarfile\<close>: \<^verbatim>\<open>getnames()\<close> lists the members' names in archive order, and
  \<^verbatim>\<open>getmember(name)\<close> returns the member of that name, the last one if the name occurs
  more than once, and raises \<^verbatim>\<open>KeyError\<close> if there is none.
\<close>

definition getnames :: "tar_file \<Rightarrow> string list" where
  "getnames tar = map tar_name (members tar)"

definition getmember :: "tar_file \<Rightarrow> string \<Rightarrow> error + tar_info" where
  "getmember tar n =
     (case find (\<lambda>m. tar_name m = n) (rev (members tar)) of
        None \<Rightarrow> Inl KeyError
      | Some m \<Rightarrow> Inr m)"

text \<open>\<^verbatim>\<open>s.startswith(pre)\<close>.\<close>

definition startswith :: "string \<Rightarrow> string \<Rightarrow> bool" where
  "startswith s pre = (take (length pre) s = pre)"

text \<open>The loop over the names that looks for a virtual directory.\<close>

fun virtual_directory_loop :: "string list \<Rightarrow> string \<Rightarrow> bool" where
  "virtual_directory_loop [] pre = False"
| "virtual_directory_loop (n # names) pre =
     (if startswith n pre then True else virtual_directory_loop names pre)"

text \<open>
  \<^verbatim>\<open>FileEntryExistsByPathSpec\<close>.  \<^verbatim>\<open>location[1:]\<close> is \<open>drop 1\<close>.  On a file system that
  has not been opened \<^verbatim>\<open>self._tar_file\<close> is \<^verbatim>\<open>None\<close> and reading \<^verbatim>\<open>getmember\<close> off it
  raises \<^verbatim>\<open>AttributeError\<close>.  Only \<^verbatim>\<open>KeyError\<close> is caught.
\<close>

definition FileEntryExistsByPathSpec :: "tar_file_system \<Rightarrow> path_spec \<Rightarrow> error + bool" where
  "FileEntryExistsByPathSpec fs path_spec =
     (case location path_spec of
        None \<Rightarrow> Inr False
      | Some loc \<Rightarrow>
          if \<not> startswith loc TAR_LOCATION_ROOT then Inr False
          else if length loc = 1 then Inr True
          else
            (case tfs_tar_file fs of
               None \<Rightarrow> Inl AttributeError
             | Some tar \<Rightarrow>
                 (case getmember tar (drop 1 loc) of
                    Inr m \<Rightarrow> Inr True
                  | Inl KeyError \<Rightarrow> Inr (virtual_directory_loop (getnames tar) (drop 1 loc))
                  | Inl e \<Rightarrow> Inl e)))"

text \<open>
  Modelled from the spec: the constructor \<^verbatim>\<open>TARFileEntry\<close> of
  \<^verbatim>\<open>dfvfs.vfs.tar_file_entry\<close> is not among the source files.  Section 3: a file entry
  is a node of a file system's hierarchy with "a possibly-virtual flag (entry synthesized
  by the engine, not backed by a native record)".  The entry keeps what it was constructed
  with; \<^verbatim>\<open>is_root\<close> and \<^verbatim>\<open>is_virtual\<close> default to \<^verbatim>\<open>False\<close>, \<^verbatim>\<open>tar_info\<close> to \<^verbatim>\<open>None\<close>.
\<close>

record tar_file_entry =
  tar_entry_path_spec :: path_spec
  tar_entry_is_root :: bool
  tar_entry_is_virtual :: bool
  tar_entry_tar_info :: "tar_info option"

definition TARFileEntry :: "path_spec \<Rightarrow> bool \<Rightarrow> bool \<Rightarrow> tar_info option \<Rightarrow> tar_file_entry" where
  "TARFileEntry ps is_root is_virtual info =
     \<lparr>tar_entry_path_spec = ps, tar_entry_is_root = is_root,
      tar_entry_is_virtual = is_virtual, tar_entry_tar_info = info\<rparr>"

text \<open>
  \<^verbatim>\<open>GetFileEntryByPathSpec\<close>: \<open>Inr None\<close> is the bare \<^verbatim>\<open>return\<close>.  \<^verbatim>\<open>len(location)\<close> on
  \<^verbatim>\<open>None\<close> would raise \<^verbatim>\<open>TypeError\<close>.
\<close>

definition GetFileEntryByPathSpec ::
  "tar_file_system \<Rightarrow> path_spec \<Rightarrow> error + tar_file_entry option" where
  "GetFileEntryByPathSpec fs path_spec =
     (case FileEntryExistsByPathSpec fs path_spec of
        Inl e \<Rightarrow> Inl e
      | Inr False \<Rightarrow> Inr None
      | Inr True \<Rightarrow>
          (case location path_spec of
             None \<Rightarrow> Inl TypeError
           | Some loc \<Rightarrow>
               if length loc = 1 then Inr (Some (TARFileEntry path_spec True True None))
               else
                 (case tfs_tar_file fs of
                    None \<Rightarrow> Inl AttributeError
                  | Some tar \<Rightarrow>
                      (case getmember tar (drop 1 loc) of
                         Inr m \<Rightarrow> Inr (Some (TARFileEntry path_spec False False (Some m)))
                       | Inl KeyError \<Rightarrow> Inr (Some (TARFileEntry path_spec False True None))
                       | Inl e \<Rightarrow> Inl e))))"

section \<open>Examples\<close>

text \<open>
  A partition table on a raw image: three records in on-disk order, the first and the
  third allocated, the second neither allocated nor reporting a start or a length.
\<close>

definition physical_source :: path_spec where
  "physical_source = PathSpec ''OS'' (Some ''/image.raw'') None None None"

definition root_path_spec :: path_spec where
  "root_path_spec = PathSpec TYPE_INDICATOR_TSK_PARTITION (Some ''/'') None None (Some physical_source)"

definition three_records :: tsk_volume where
  "three_records = \<lparr>block_size = 512, parts =
     [\<lparr>allocated = True, start = Some 1, len = Some 350\<rparr>,
      \<lparr>allocated = False, start = None, len = None\<rparr>,
      \<lparr>allocated = True, start = Some 351, len = Some 2528\<rparr>]\<rparr>"

definition three_fs :: tsk_partition_file_system where
  "three_fs = \<lparr>LOCATION_ROOT = ''/'', GetTSKVolume = three_records\<rparr>"


text \<open>
  An instance of the lookup for the examples: it finds a record by the descriptor's
  structural index.  The entries: the first partition, a descriptor whose index is past
  the end of the table, the virtual root, and a partition whose record reports zero
  sectors.
\<close>

definition lookup_by_part_index :: vs_part_lookup where
  "lookup_by_part_index v ps =
     (case part_index ps of
        None \<Rightarrow> None
      | Some i \<Rightarrow> if 0 \<le> i \<and> nat i < length (parts v) then Some (parts v ! nat i) else None)"

definition first_partition_entry :: tsk_partition_file_entry where
  "first_partition_entry = TSKPartitionFileEntry three_fs
     (PathSpec TYPE_INDICATOR_TSK_PARTITION (Some ''/p1'') (Some 0) (Some 512) (Some physical_source))
     False False"

definition missing_partition_entry :: tsk_partition_file_entry where
  "missing_partition_entry = TSKPartitionFileEntry three_fs
     (PathSpec TYPE_INDICATOR_TSK_PARTITION None (Some 7) None (Some physical_source))
     False False"

definition root_entry :: tsk_partition_file_entry where
  "root_entry = TSKPartitionFileEntry three_fs root_path_spec True True"

definition zero_sectors_fs :: tsk_partition_file_system where
  "zero_sectors_fs = \<lparr>LOCATION_ROOT = ''/'', GetTSKVolume =
     \<lparr>block_size = 512, parts = [\<lparr>allocated = True, start = Some 2048, len = Some 0\<rparr>]\<rparr>\<rparr>"

definition zero_sectors_entry :: tsk_partition_file_entry where
  "zero_sectors_entry = TSKPartitionFileEntry zero_sectors_fs
     (PathSpec TYPE_INDICATOR_TSK_PARTITION (Some ''/p1'') (Some 0) (Some 1048576) (Some physical_source))
     False False"

text \<open>
  Two instances of \<^verbatim>\<open>TSKPartitionFile.open\<close>: one that succeeds on every object and
  one that raises on every object.
\<close>

definition always_opens :: "file_object \<Rightarrow> error option" where
  "always_opens fo = None"

definition never_opens :: "file_object \<Rightarrow> error option" where
  "never_opens fo = Some ValueError"

text \<open>
  A TAR layer and a VHD layer on the raw image, a TAR descriptor without a parent, a TAR
  file system that has not been opened, and two environments: one whose decoders raise on the stream they
  are given and one whose decoders succeed.
\<close>

definition tar_path_spec :: path_spec where
  "tar_path_spec = PathSpec ''TAR'' (Some ''/'') None None (Some physical_source)"

definition vhdi_path_spec :: path_spec where
  "vhdi_path_spec = PathSpec ''VHDI'' None None None (Some physical_source)"

definition orphan_path_spec :: path_spec where
  "orphan_path_spec = PathSpec ''TAR'' (Some ''/'') None None None"

definition closed_tar_file_system :: tar_file_system where
  "closed_tar_file_system = \<lparr>tfs_file_object = None, tfs_tar_file = None, tfs_encoding = ''utf-8''\<rparr>"

definition corrupt_container :: environment where
  "corrupt_container =
     \<lparr>resolver_OpenFileObject = (\<lambda>ps. Inr 7),
      tarfile_open = (\<lambda>h. Inl IOError),
      pyvhdi_open_file_object = (\<lambda>h. Some IOError),
      file_object_close = (\<lambda>h. None)\<rparr>"

definition working_container :: environment where
  "working_container =
     \<lparr>resolver_OpenFileObject = (\<lambda>ps. Inr 7),
      tarfile_open = (\<lambda>h. Inr \<lparr>members = [TarInfo ''syslog'']\<rparr>),
      pyvhdi_open_file_object = (\<lambda>h. None),
      file_object_close = (\<lambda>h. None)\<rparr>"

text \<open>
  An opened TAR file system whose archive has the members \<open>syslog\<close> and
  \<open>docs/readme.txt\<close>, and the TAR descriptor of a location in it.
\<close>

definition opened_tar_file_system :: tar_file_system where
  "opened_tar_file_system =
     \<lparr>tfs_file_object = Some 7,
      tfs_tar_file = Some \<lparr>members = [TarInfo ''syslog'', TarInfo ''docs/readme.txt'']\<rparr>,
      tfs_encoding = ''utf-8''\<rparr>"

definition tar_location :: "string \<Rightarrow> path_spec" where
  "tar_location loc = PathSpec ''TAR'' (Some loc) None None (Some physical_source)"

section \<open>Partition enumeration\<close>

text \<open>
  What the loop yields for the \<open>j\<close>-th record, for any starting values of the counters:
  the structural index counts every record, the partition number only the allocated ones.
\<close>

lemma entries_loop_counters:
  assumes "parent ps \<noteq> None"
  shows "\<exists>cs. entries_loop bps ps i k xs = Inr cs \<and> length cs = length xs \<and>
     (\<forall>j < length xs.
        part_index (cs ! j) = Some (i + int j) \<and>
        location (cs ! j) =
          (if allocated (xs ! j)
           then Some (partition_location (k + int (length (filter allocated (take (Suc j) xs)))))
           else None) \<and>
        start_offset (cs ! j) = map_option (\<lambda>s. s * bps) (start (xs ! j)) \<and>
        parent (cs ! j) = parent ps \<and>
        type_indicator (cs ! j) = TYPE_INDICATOR_TSK_PARTITION)"
proof (induction xs arbitrary: i k)
  case Nil
  show ?case by simp
next
  case (Cons p rest)
  let ?k' = "if allocated p then k + 1 else k"
  from Cons.IH [of "i + 1" ?k'] obtain cs where
    cs: "entries_loop bps ps (i + 1) ?k' rest = Inr cs" "length cs = length rest"
    and each: "\<And>j. j < length rest \<Longrightarrow>
        part_index (cs ! j) = Some (i + 1 + int j) \<and>
        location (cs ! j) =
          (if allocated (rest ! j)
           then Some (partition_location (?k' + int (length (filter allocated (take (Suc j) rest)))))
           else None) \<and>
        start_offset (cs ! j) = map_option (\<lambda>s. s * bps) (start (rest ! j)) \<and>
        parent (cs ! j) = parent ps \<and>
        type_indicator (cs ! j) = TYPE_INDICATOR_TSK_PARTITION"
    by blast
  let ?c = "PathSpec TYPE_INDICATOR_TSK_PARTITION
              (if allocated p then Some (partition_location (k + 1)) else None)
              (Some i) (map_option (\<lambda>s. s * bps) (start p)) (parent ps)"
  have run: "entries_loop bps ps i k (p # rest) = Inr (?c # cs)"
    using assms cs(1)
    by (cases "allocated p"; cases "start p")
       (simp_all add: entry_kwargs_def TSKPartitionPathSpec_def TSKVsPartIsAllocated_def
        TSKVsPartGetStartSector_def)
  have "\<forall>j < length (p # rest). 
        part_index ((?c # cs) ! j) = Some (i + int j) \<and>
        location ((?c # cs) ! j) =
          (if allocated ((p # rest) ! j)
           then Some (partition_location (k + int (length (filter allocated (take (Suc j) (p # rest))))))
           else None) \<and>
        start_offset ((?c # cs) ! j) = map_option (\<lambda>s. s * bps) (start ((p # rest) ! j)) \<and>
        parent ((?c # cs) ! j) = parent ps \<and>
        type_indicator ((?c # cs) ! j) = TYPE_INDICATOR_TSK_PARTITION"
  proof (intro allI impI)
    fix j assume j: "j < length (p # rest)"
    show "part_index ((?c # cs) ! j) = Some (i + int j) \<and>
        location ((?c # cs) ! j) =
          (if allocated ((p # rest) ! j)
           then Some (partition_location (k + int (length (filter allocated (take (Suc j) (p # rest))))))
           else None) \<and>
        start_offset ((?c # cs) ! j) = map_option (\<lambda>s. s * bps) (start ((p # rest) ! j)) \<and>
        parent ((?c # cs) ! j) = parent ps \<and>
        type_indicator ((?c # cs) ! j) = TYPE_INDICATOR_TSK_PARTITION"
    proof (cases j)
      case 0
      then show ?thesis by simp
    next
      case (Suc j')
      with j have "j' < length rest" by simp
      from each [OF this] Suc show ?thesis by (simp add: add.assoc)
    qed
  qed
  with run cs(2) show ?case by simp
qed


lemma parent_not_self: "parent ps \<noteq> Some ps"
proof
  assume "parent ps = Some ps"
  then have "size (the (parent ps)) = size ps" by simp
  moreover have "size (the (parent ps)) < size ps \<or> parent ps = None"
    by (cases ps; cases "parent ps") auto
  ultimately show False using \<open>parent ps = Some ps\<close> by auto
qed

lemma partition_location_1: "partition_location 1 = ''/p1''"
  by (simp add: partition_location_def format_d_def decimal.simps digit_char_def)

lemma partition_location_2: "partition_location 2 = ''/p2''"
  by (simp add: partition_location_def format_d_def decimal.simps digit_char_def)

lemma list3: "length cs = 3 \<Longrightarrow> \<exists>x y z. cs = [x, y, z]"
  by (auto simp add: length_Suc_conv numeral_3_eq_3)

lemma fixture_root: "is_root_directory three_fs root_path_spec"
  by (simp add: is_root_directory_def three_fs_def root_path_spec_def)

lemma fixture_parent: "HasParent root_path_spec"
  by (simp add: HasParent_def root_path_spec_def)


lemma three_records_enumeration:
  "EntriesGenerator three_fs root_path_spec =
     Inr [PathSpec TYPE_INDICATOR_TSK_PARTITION (Some ''/p1'') (Some 0) (Some 512) (Some physical_source),
          PathSpec TYPE_INDICATOR_TSK_PARTITION None (Some 1) None (Some physical_source),
          PathSpec TYPE_INDICATOR_TSK_PARTITION (Some ''/p2'') (Some 2) (Some 179712) (Some physical_source)]"
  by (simp add: EntriesGenerator_def three_fs_def root_path_spec_def three_records_def
      TSKVolumeGetBytesPerSector_def entry_kwargs_def TSKVsPartIsAllocated_def
      TSKVsPartGetStartSector_def TSKPartitionPathSpec_def partition_location_def
      format_d_def decimal.simps digit_char_def)

text \<open>
  Claim C1.  Enumerating the root of a partition file system walks the volume's records in
  on-disk order with two independent counters: every record, allocated or not, gets the
  zero-based structural index \<open>part_index\<close>, and only the allocated records get the
  location \<open>/p1\<close>, \<open>/p2\<close>, ..., numbered from one by the count of allocated records so
  far.  In particular, for three records of which the first and the third are allocated and
  the second is not, exactly two entries have a location: \<open>/p1\<close> with structural index 0
  and \<open>/p2\<close> with structural index 2.
\<close>

theorem EntriesGenerator_two_counters:
  assumes root: "is_root_directory fs ps" and par: "HasParent ps"
  shows "\<exists>cs. EntriesGenerator fs ps = Inr cs \<and>
     length cs = length (parts (GetTSKVolume fs)) \<and>
     (\<forall>j < length cs.
        part_index (cs ! j) = Some (int j) \<and>
        location (cs ! j) =
          (if TSKVsPartIsAllocated (parts (GetTSKVolume fs) ! j)
           then Some (''/p'' @ format_d (int (length
                   (filter TSKVsPartIsAllocated (take (Suc j) (parts (GetTSKVolume fs)))))))
           else None)) \<and>
     (\<forall>a b c. parts (GetTSKVolume fs) = [a, b, c] \<and> TSKVsPartIsAllocated a \<and>
        \<not> TSKVsPartIsAllocated b \<and> TSKVsPartIsAllocated c \<longrightarrow>
        map (\<lambda>e. (location e, part_index e)) (filter (\<lambda>e. location e \<noteq> None) cs) =
          [(Some ''/p1'', Some 0), (Some ''/p2'', Some 2)])"
proof -
  let ?xs = "parts (GetTSKVolume fs)"
  have alloc_eq: "TSKVsPartIsAllocated = allocated"
    by (rule ext) (simp add: TSKVsPartIsAllocated_def)
  from par have "parent ps \<noteq> None" by (simp add: HasParent_def)
  from entries_loop_counters [OF this, of "block_size (GetTSKVolume fs)" 0 0 ?xs]
  obtain cs where run: "entries_loop (block_size (GetTSKVolume fs)) ps 0 0 ?xs = Inr cs"
    and len: "length cs = length ?xs"
    and each: "\<And>j. j < length ?xs \<Longrightarrow>
        part_index (cs ! j) = Some (int j) \<and>
        location (cs ! j) =
          (if allocated (?xs ! j)
           then Some (partition_location (int (length (filter allocated (take (Suc j) ?xs)))))
           else None)"
    by auto
  from root have gen: "EntriesGenerator fs ps = Inr cs"
    by (simp add: EntriesGenerator_def is_root_directory_def run TSKVolumeGetBytesPerSector_def)
  have general: "\<forall>j < length cs.
        part_index (cs ! j) = Some (int j) \<and>
        location (cs ! j) =
          (if TSKVsPartIsAllocated (?xs ! j)
           then Some (''/p'' @ format_d (int (length
                   (filter TSKVsPartIsAllocated (take (Suc j) ?xs)))))
           else None)"
    using each len by (simp add: alloc_eq partition_location_def)
  have three: "map (\<lambda>e. (location e, part_index e)) (filter (\<lambda>e. location e \<noteq> None) cs) =
          [(Some ''/p1'', Some 0), (Some ''/p2'', Some 2)]"
    if abc: "?xs = [a, b, c]" and fl: "TSKVsPartIsAllocated a" "\<not> TSKVsPartIsAllocated b"
      "TSKVsPartIsAllocated c" for a b c
  proof -
    from len abc have l3: "length cs = 3" by simp
    from fl have al: "allocated a" "\<not> allocated b" "allocated c"
      by (simp_all add: TSKVsPartIsAllocated_def)
    have e0: "part_index (cs ! 0) = Some 0" "location (cs ! 0) = Some ''/p1''"
      using each [of 0] abc al by (simp_all add: partition_location_1)
    have e1: "location (cs ! 1) = None"
      using each [of 1] abc al by simp
    have e2: "part_index (cs ! 2) = Some 2" "location (cs ! 2) = Some ''/p2''"
      using each [of 2] abc al by (simp_all add: partition_location_2)
    obtain x y z where xyz: "cs = [x, y, z]"
      using l3 list3 by blast
    from e0 e1 e2 show ?thesis unfolding xyz by simp
  qed
  from gen len general three show ?thesis by blast
qed

theorem EntriesGenerator_two_counters_witness:
  "is_root_directory three_fs root_path_spec \<and> HasParent root_path_spec \<and>
   (\<exists>cs. EntriesGenerator three_fs root_path_spec = Inr cs \<and> length cs = 3 \<and>
      map (\<lambda>e. (location e, part_index e)) cs =
        [(Some ''/p1'', Some 0), (None, Some 1), (Some ''/p2'', Some 2)] \<and>
      map (\<lambda>e. (location e, part_index e)) (filter (\<lambda>e. location e \<noteq> None) cs) =
        [(Some ''/p1'', Some 0), (Some ''/p2'', Some 2)])"
proof -
  from EntriesGenerator_two_counters [OF fixture_root fixture_parent]
  obtain cs where gen: "EntriesGenerator three_fs root_path_spec = Inr cs"
    and len: "length cs = length (parts (GetTSKVolume three_fs))"
    and three: "\<forall>a b c. parts (GetTSKVolume three_fs) = [a, b, c] \<and> TSKVsPartIsAllocated a \<and>
        \<not> TSKVsPartIsAllocated b \<and> TSKVsPartIsAllocated c \<longrightarrow>
        map (\<lambda>e. (location e, part_index e)) (filter (\<lambda>e. location e \<noteq> None) cs) =
          [(Some ''/p1'', Some 0), (Some ''/p2'', Some 2)]"
    by blast
  note run = three_records_enumeration
  from three have "map (\<lambda>e. (location e, part_index e)) (filter (\<lambda>e. location e \<noteq> None) cs) =
          [(Some ''/p1'', Some 0), (Some ''/p2'', Some 2)]"
    by (simp add: three_fs_def three_records_def TSKVsPartIsAllocated_def)
  with gen run fixture_root fixture_parent show ?thesis by auto
qed

text \<open>
  Claim C2.  Every descriptor that the enumeration yields carries the record's structural
  index; a start offset of \<open>start_sector * bytes_per_sector\<close> exactly when the record
  reports a start sector, and none otherwise; a location exactly when the record is
  allocated; and as its parent the parent of the enumerating entry's own descriptor, which
  is the physical source below the partition table and never the partition-table
  descriptor itself.
\<close>

theorem EntriesGenerator_child_descriptor:
  assumes root: "is_root_directory fs ps" and par: "HasParent ps"
  shows "\<exists>cs. EntriesGenerator fs ps = Inr cs \<and>
     length cs = length (parts (GetTSKVolume fs)) \<and>
     (\<forall>j < length cs.
        part_index (cs ! j) = Some (int j) \<and>
        start_offset (cs ! j) =
          (case TSKVsPartGetStartSector (parts (GetTSKVolume fs) ! j) of
             None \<Rightarrow> None
           | Some start_sector \<Rightarrow>
               Some (start_sector * TSKVolumeGetBytesPerSector (GetTSKVolume fs))) \<and>
        (location (cs ! j) \<noteq> None) = TSKVsPartIsAllocated (parts (GetTSKVolume fs) ! j) \<and>
        parent (cs ! j) = parent ps \<and>
        parent (cs ! j) \<noteq> Some ps)"
proof -
  let ?xs = "parts (GetTSKVolume fs)"
  from par have "parent ps \<noteq> None" by (simp add: HasParent_def)
  from entries_loop_counters [OF this, of "block_size (GetTSKVolume fs)" 0 0 ?xs]
  obtain cs where run: "entries_loop (block_size (GetTSKVolume fs)) ps 0 0 ?xs = Inr cs"
    and len: "length cs = length ?xs"
    and each: "\<And>j. j < length ?xs \<Longrightarrow>
        part_index (cs ! j) = Some (int j) \<and>
        location (cs ! j) =
          (if allocated (?xs ! j)
           then Some (partition_location (int (length (filter allocated (take (Suc j) ?xs)))))
           else None) \<and>
        start_offset (cs ! j) = map_option (\<lambda>s. s * block_size (GetTSKVolume fs)) (start (?xs ! j)) \<and>
        parent (cs ! j) = parent ps"
    by auto
  from root have gen: "EntriesGenerator fs ps = Inr cs"
    by (simp add: EntriesGenerator_def is_root_directory_def run TSKVolumeGetBytesPerSector_def)
  have "part_index (cs ! j) = Some (int j) \<and>
        start_offset (cs ! j) =
          (case TSKVsPartGetStartSector (?xs ! j) of
             None \<Rightarrow> None
           | Some start_sector \<Rightarrow>
               Some (start_sector * TSKVolumeGetBytesPerSector (GetTSKVolume fs))) \<and>
        (location (cs ! j) \<noteq> None) = TSKVsPartIsAllocated (?xs ! j) \<and>
        parent (cs ! j) = parent ps \<and>
        parent (cs ! j) \<noteq> Some ps" if "j < length cs" for j
  proof -
    from that len have "j < length ?xs" by simp
    from each [OF this] show ?thesis
      by (simp add: TSKVsPartGetStartSector_def TSKVolumeGetBytesPerSector_def
          TSKVsPartIsAllocated_def parent_not_self split: option.splits)
  qed
  with gen len show ?thesis by blast
qed

theorem EntriesGenerator_child_descriptor_witness:
  "is_root_directory three_fs root_path_spec \<and> HasParent root_path_spec \<and>
   EntriesGenerator three_fs root_path_spec =
     Inr [PathSpec TYPE_INDICATOR_TSK_PARTITION (Some ''/p1'') (Some 0) (Some 512) (Some physical_source),
          PathSpec TYPE_INDICATOR_TSK_PARTITION None (Some 1) None (Some physical_source),
          PathSpec TYPE_INDICATOR_TSK_PARTITION (Some ''/p2'') (Some 2) (Some 179712) (Some physical_source)] \<and>
   parent root_path_spec = Some physical_source \<and>
   (\<exists>cs. EntriesGenerator three_fs root_path_spec = Inr cs \<and>
      map parent cs = [Some physical_source, Some physical_source, Some physical_source] \<and>
      map start_offset cs = [Some 512, None, Some 179712])"
proof -
  from EntriesGenerator_child_descriptor [OF fixture_root fixture_parent]
  obtain cs where gen: "EntriesGenerator three_fs root_path_spec = Inr cs" by blast
  note run = three_records_enumeration
  with gen fixture_root fixture_parent show ?thesis
    by (auto simp: root_path_spec_def)
qed

section \<open>Enumeration as a generator\<close>

text \<open>
  A loop over the generator collects what the complete walk yields, and a generator that
  has not been started fetches the whole volume on its first step.
\<close>

lemma loop_resume_Cons:
  "loop_resume bps ps i k (p # rest) =
     (case entry_kwargs bps ps i k p of
        (k', (loc, idx, off, par)) \<Rightarrow>
          (case TSKPartitionPathSpec loc idx off par of
             Inl e \<Rightarrow> (Inl e, Finished)
           | Inr child \<Rightarrow> (Inr (Some child), Suspended (i + 1) k' rest)))"
  by (simp add: loop_resume_def)

lemma gen_drain_Suspended:
  "gen_drain fs ps (Suspended i k rest, io) =
     (entries_loop (TSKVolumeGetBytesPerSector (GetTSKVolume fs)) ps i k rest, io)"
proof (induction rest arbitrary: i k)
  case Nil
  show ?case
    by (subst gen_drain.simps) (simp add: gen_next_def loop_resume_def)
next
  case (Cons p rest)
  show ?case
    by (subst gen_drain.simps)
       (auto simp: gen_next_def loop_resume_Cons Cons.IH split: prod.splits sum.splits)
qed

lemma gen_drain_NotStarted:
  assumes "is_root_directory fs ps"
  shows "gen_drain fs ps (NotStarted, io) = (EntriesGenerator fs ps, walked fs io)"
proof (cases "parts (GetTSKVolume fs)")
  case Nil
  with assms show ?thesis
    by (subst gen_drain.simps)
       (simp add: gen_next_def is_root_directory_def list_tsk_volume_def loop_resume_def
          EntriesGenerator_def walked_def)
next
  case (Cons p rest)
  with assms show ?thesis
    by (subst gen_drain.simps)
       (auto simp: gen_next_def is_root_directory_def list_tsk_volume_def loop_resume_Cons
          EntriesGenerator_def walked_def gen_drain_Suspended Let_def
          split: prod.splits sum.splits)
qed

lemma gen_steps_Suspended:
  assumes "entries_loop (TSKVolumeGetBytesPerSector (GetTSKVolume fs)) ps i k rest = Inr cs"
    and "n \<le> length cs"
  shows "\<exists>g. gen_steps n fs ps (Suspended i k rest, io) = (map (\<lambda>c. Inr (Some c)) (take n cs), g, io)"
  using assms
proof (induction n arbitrary: i k rest cs)
  case 0
  show ?case by simp
next
  case (Suc n)
  from Suc.prems obtain c cs' where cs: "cs = c # cs'" by (cases cs) auto
  from Suc.prems(1) cs obtain p rest' where rest: "rest = p # rest'" by (cases rest) auto
  obtain k' loc idx off par where kw:
    "entry_kwargs (TSKVolumeGetBytesPerSector (GetTSKVolume fs)) ps i k p = (k', (loc, idx, off, par))"
    by (metis prod_cases5)
  from Suc.prems(1) cs rest kw have child: "TSKPartitionPathSpec loc idx off par = Inr c"
    and tail: "entries_loop (TSKVolumeGetBytesPerSector (GetTSKVolume fs)) ps (i + 1) k' rest' = Inr cs'"
    by (auto split: sum.splits)
  from Suc.prems(2) cs have "n \<le> length cs'" by simp
  from Suc.IH [OF tail this] obtain g where
    "gen_steps n fs ps (Suspended (i + 1) k' rest', io) = (map (\<lambda>c. Inr (Some c)) (take n cs'), g, io)"
    by blast
  then show ?case
    by (simp add: gen_next_def rest loop_resume_Cons kw child cs)
qed

lemma gen_steps_NotStarted:
  assumes root: "is_root_directory fs ps"
    and run: "EntriesGenerator fs ps = Inr cs"
    and n: "0 < n" "n \<le> length cs"
  shows "\<exists>g. gen_steps n fs ps (NotStarted, io) = (map (\<lambda>c. Inr (Some c)) (take n cs), g, walked fs io)"
proof -
  let ?bps = "TSKVolumeGetBytesPerSector (GetTSKVolume fs)"
  from n obtain m where m: "n = Suc m" by (cases n) auto
  from n obtain c cs' where cs: "cs = c # cs'" by (cases cs) auto
  from root run have loop: "entries_loop ?bps ps 0 0 (parts (GetTSKVolume fs)) = Inr cs"
    by (simp add: EntriesGenerator_def is_root_directory_def Let_def)
  with cs obtain p rest' where rest: "parts (GetTSKVolume fs) = p # rest'"
    by (cases "parts (GetTSKVolume fs)") auto
  obtain k' loc idx off par where kw:
    "entry_kwargs ?bps ps 0 0 p = (k', (loc, idx, off, par))"
    by (metis prod_cases5)
  from loop cs rest kw have child: "TSKPartitionPathSpec loc idx off par = Inr c"
    and tail: "entries_loop ?bps ps (0 + 1) k' rest' = Inr cs'"
    by (auto split: sum.splits)
  from n cs m have "m \<le> length cs'" by simp
  from gen_steps_Suspended [OF tail this] obtain g where
    "gen_steps m fs ps (Suspended (0 + 1) k' rest', walked fs io)
       = (map (\<lambda>c. Inr (Some c)) (take m cs'), g, walked fs io)"
    by blast
  with root show ?thesis
    by (simp add: m gen_next_def is_root_directory_def list_tsk_volume_def walked_def
        rest loop_resume_Cons kw child cs Let_def)
qed

lemma walked_eq:
  "walked fs io = io\<lparr>walks := walks io + 1,
     records_read := records_read io + length (parts (GetTSKVolume fs))\<rparr>"
  by (simp add: walked_def list_tsk_volume_def)

lemma sub_file_entries_cached:
  assumes "p_directory e = Some d"
  shows "sub_file_entries lookup e io =
     (case entries d io of
        (Inl err, io') \<Rightarrow> (Inl err, e, io')
      | (Inr path_specs, io') \<Rightarrow>
          (Inr (map (\<lambda>path_spec. TSKPartitionFileEntry (p_file_system e) path_spec False False)
                  path_specs), e, io'))"
  using assms by (simp add: sub_file_entries_def)

lemma GetDirectory_virtual:
  assumes "p_is_virtual e" "p_stat_object e = None"
  shows "\<exists>e'. GetDirectory lookup e =
       (Inr (Some \<lparr>dir_file_system = p_file_system e, dir_path_spec = entry_path_spec e\<rparr>), e') \<and>
     p_file_system e' = p_file_system e \<and> entry_path_spec e' = entry_path_spec e"
proof -
  obtain r e1 where g: "GetStat lookup e = (r, e1)" by (cases "GetStat lookup e")
  from assms(1) g obtain st where r: "r = Inr st" and ty: "type_attr st = Some TYPE_DIRECTORY"
    and e1: "p_file_system e1 = p_file_system e" "entry_path_spec e1 = entry_path_spec e"
    by (auto simp: GetStat_def Let_def split: if_splits)
  with assms(2) g show ?thesis
    by (simp add: GetDirectory_def)
qed

text \<open>
  Claim C8, as the code has it.  The claim says the enumeration does not materialise the
  native records in bulk.  \<^verbatim>\<open>_EntriesGenerator\<close> iterates over \<^verbatim>\<open>list(tsk_volume)\<close>: its
  first step, which yields one descriptor, has fetched all three records of the volume and
  holds the remaining two in the suspended generator.
\<close>

theorem enumeration_materialises_counterexample:
  "gen_steps 1 three_fs root_path_spec (NotStarted, \<lparr>walks = 0, records_read = 0\<rparr>) =
     ([Inr (Some (PathSpec TYPE_INDICATOR_TSK_PARTITION (Some ''/p1'') (Some 0) (Some 512)
                    (Some physical_source)))],
      Suspended 1 1 [\<lparr>allocated = False, start = None, len = None\<rparr>,
                     \<lparr>allocated = True, start = Some 351, len = Some 2528\<rparr>],
      \<lparr>walks = 1, records_read = 3\<rparr>)"
  by (simp add: gen_next_def three_fs_def root_path_spec_def three_records_def
      list_tsk_volume_def loop_resume_def entry_kwargs_def TSKVolumeGetBytesPerSector_def
      TSKVsPartIsAllocated_def TSKVsPartGetStartSector_def TSKPartitionPathSpec_def
      partition_location_1)

text \<open>
  Claim C8, amended.  Enumerating the root yields the descriptors lazily, one for each
  \<^verbatim>\<open>next()\<close>, while the native records are fetched in bulk by the first step of a walk.
  The enumeration is restartable: every read of the directory's entries, and every
  \<^verbatim>\<open>sub_file_entries\<close> on an entry that has its directory cached or not, starts a new
  generator that walks the native volume from its first record (one more walk, every
  record fetched again) and yields the same descriptors, whatever walks came before.
\<close>

theorem enumeration_restarts:
  assumes root: "is_root_directory fs ps" and par: "HasParent ps"
  shows "\<exists>cs. EntriesGenerator fs ps = Inr cs \<and>
     (\<forall>io n. 0 < n \<and> n \<le> length cs \<longrightarrow>
        (\<exists>g. gen_steps n fs ps (NotStarted, io) =
           (map (\<lambda>c. Inr (Some c)) (take n cs), g,
            io\<lparr>walks := walks io + 1,
               records_read := records_read io + length (parts (GetTSKVolume fs))\<rparr>))) \<and>
     (\<forall>io. entries \<lparr>dir_file_system = fs, dir_path_spec = ps\<rparr> io =
        (Inr cs, io\<lparr>walks := walks io + 1,
                    records_read := records_read io + length (parts (GetTSKVolume fs))\<rparr>)) \<and>
     (\<forall>lookup e io.
        p_directory e = Some \<lparr>dir_file_system = fs, dir_path_spec = ps\<rparr> \<longrightarrow>
        sub_file_entries lookup e io =
          (Inr (map (\<lambda>c. TSKPartitionFileEntry (p_file_system e) c False False) cs), e,
           io\<lparr>walks := walks io + 1,
              records_read := records_read io + length (parts (GetTSKVolume fs))\<rparr>)) \<and>
     (\<forall>lookup e io.
        p_is_virtual e \<and> p_directory e = None \<and> p_stat_object e = None \<and>
        p_file_system e = fs \<and> entry_path_spec e = ps \<longrightarrow>
        (\<exists>e'. sub_file_entries lookup e io =
           (Inr (map (\<lambda>c. TSKPartitionFileEntry fs c False False) cs), e',
            io\<lparr>walks := walks io + 1,
               records_read := records_read io + length (parts (GetTSKVolume fs))\<rparr>) \<and>
           p_file_system e' = fs \<and>
           p_directory e' = Some \<lparr>dir_file_system = fs, dir_path_spec = ps\<rparr>))"
proof -
  from par have "parent ps \<noteq> None" by (simp add: HasParent_def)
  from entries_loop_counters [OF this, of "block_size (GetTSKVolume fs)" 0 0 "parts (GetTSKVolume fs)"]
  obtain cs where "entries_loop (block_size (GetTSKVolume fs)) ps 0 0 (parts (GetTSKVolume fs)) = Inr cs"
    by blast
  with root have gen: "EntriesGenerator fs ps = Inr cs"
    by (simp add: EntriesGenerator_def is_root_directory_def TSKVolumeGetBytesPerSector_def)
  have ent: "entries \<lparr>dir_file_system = fs, dir_path_spec = ps\<rparr> io = (Inr cs, walked fs io)" for io
    by (simp add: entries_def gen_drain_NotStarted [OF root] gen)
  have steps: "\<exists>g. gen_steps n fs ps (NotStarted, io) =
      (map (\<lambda>c. Inr (Some c)) (take n cs), g, walked fs io)" if "0 < n \<and> n \<le> length cs" for io n
    using gen_steps_NotStarted [OF root gen, of n io] that by simp
  have cached: "sub_file_entries lookup e io =
          (Inr (map (\<lambda>c. TSKPartitionFileEntry (p_file_system e) c False False) cs), e, walked fs io)"
    if "p_directory e = Some \<lparr>dir_file_system = fs, dir_path_spec = ps\<rparr>" for lookup e io
    by (simp add: sub_file_entries_cached [OF that] ent)
  have first: "\<exists>e'. sub_file_entries lookup e io =
           (Inr (map (\<lambda>c. TSKPartitionFileEntry fs c False False) cs), e', walked fs io) \<and>
           p_file_system e' = fs \<and>
           p_directory e' = Some \<lparr>dir_file_system = fs, dir_path_spec = ps\<rparr>"
    if h: "p_is_virtual e \<and> p_directory e = None \<and> p_stat_object e = None \<and>
        p_file_system e = fs \<and> entry_path_spec e = ps" for lookup e io
  proof -
    from h GetDirectory_virtual [of e lookup] obtain e1 where
      d: "GetDirectory lookup e = (Inr (Some \<lparr>dir_file_system = fs, dir_path_spec = ps\<rparr>), e1)"
      and e1: "p_file_system e1 = fs"
      by auto
    with h show ?thesis
      by (simp add: sub_file_entries_def ent)
  qed
  from gen ent steps cached first show ?thesis
    unfolding walked_eq by blast
qed

theorem enumeration_restarts_witness:
  "is_root_directory three_fs root_path_spec \<and> HasParent root_path_spec \<and>
   (\<exists>e'. sub_file_entries lookup_by_part_index root_entry \<lparr>walks = 0, records_read = 0\<rparr> =
       (Inr (map (\<lambda>c. TSKPartitionFileEntry three_fs c False False)
          [PathSpec TYPE_INDICATOR_TSK_PARTITION (Some ''/p1'') (Some 0) (Some 512) (Some physical_source),
           PathSpec TYPE_INDICATOR_TSK_PARTITION None (Some 1) None (Some physical_source),
           PathSpec TYPE_INDICATOR_TSK_PARTITION (Some ''/p2'') (Some 2) (Some 179712) (Some physical_source)]),
        e', \<lparr>walks = 1, records_read = 3\<rparr>) \<and>
      sub_file_entries lookup_by_part_index e' \<lparr>walks = 1, records_read = 3\<rparr> =
       (Inr (map (\<lambda>c. TSKPartitionFileEntry three_fs c False False)
          [PathSpec TYPE_INDICATOR_TSK_PARTITION (Some ''/p1'') (Some 0) (Some 512) (Some physical_source),
           PathSpec TYPE_INDICATOR_TSK_PARTITION None (Some 1) None (Some physical_source),
           PathSpec TYPE_INDICATOR_TSK_PARTITION (Some ''/p2'') (Some 2) (Some 179712) (Some physical_source)]),
        e', \<lparr>walks = 2, records_read = 6\<rparr>))"
proof -
  let ?d = "\<lparr>dir_file_system = three_fs, dir_path_spec = root_path_spec\<rparr>"
  from enumeration_restarts [OF fixture_root fixture_parent]
  obtain cs where gen: "EntriesGenerator three_fs root_path_spec = Inr cs"
    and cached: "\<And>lookup e io. p_directory e = Some ?d \<Longrightarrow>
        sub_file_entries lookup e io =
          (Inr (map (\<lambda>c. TSKPartitionFileEntry (p_file_system e) c False False) cs), e,
           io\<lparr>walks := walks io + 1,
              records_read := records_read io + length (parts (GetTSKVolume three_fs))\<rparr>)"
    and first: "\<And>lookup e io. p_is_virtual e \<and> p_directory e = None \<and> p_stat_object e = None \<and>
        p_file_system e = three_fs \<and> entry_path_spec e = root_path_spec \<Longrightarrow>
        (\<exists>e'. sub_file_entries lookup e io =
           (Inr (map (\<lambda>c. TSKPartitionFileEntry three_fs c False False) cs), e',
            io\<lparr>walks := walks io + 1,
               records_read := records_read io + length (parts (GetTSKVolume three_fs))\<rparr>) \<and>
           p_file_system e' = three_fs \<and> p_directory e' = Some ?d)"
    by blast
  have n: "length (parts (GetTSKVolume three_fs)) = 3"
    by (simp add: three_fs_def three_records_def)
  have "p_is_virtual root_entry \<and> p_directory root_entry = None \<and> p_stat_object root_entry = None \<and>
        p_file_system root_entry = three_fs \<and> entry_path_spec root_entry = root_path_spec"
    by (simp add: root_entry_def TSKPartitionFileEntry_def)
  from first [OF this, of lookup_by_part_index "\<lparr>walks = 0, records_read = 0\<rparr>"]
  obtain e' where one: "sub_file_entries lookup_by_part_index root_entry \<lparr>walks = 0, records_read = 0\<rparr> =
           (Inr (map (\<lambda>c. TSKPartitionFileEntry three_fs c False False) cs), e',
            \<lparr>walks = 1, records_read = 3\<rparr>)"
    and fs': "p_file_system e' = three_fs" and d': "p_directory e' = Some ?d"
    by (auto simp: n)
  from cached [OF d', of lookup_by_part_index "\<lparr>walks = 1, records_read = 3\<rparr>"]
  have two: "sub_file_entries lookup_by_part_index e' \<lparr>walks = 1, records_read = 3\<rparr> =
           (Inr (map (\<lambda>c. TSKPartitionFileEntry three_fs c False False) cs), e',
            \<lparr>walks = 2, records_read = 6\<rparr>)"
    by (simp add: n fs')
  from gen have cs: "cs =
          [PathSpec TYPE_INDICATOR_TSK_PARTITION (Some ''/p1'') (Some 0) (Some 512) (Some physical_source),
           PathSpec TYPE_INDICATOR_TSK_PARTITION None (Some 1) None (Some physical_source),
           PathSpec TYPE_INDICATOR_TSK_PARTITION (Some ''/p2'') (Some 2) (Some 179712) (Some physical_source)]"
    by (simp add: three_records_enumeration)
  from one two fixture_root fixture_parent show ?thesis
    unfolding cs by blast
qed

section \<open>The stat summary of a partition entry\<close>

text \<open>
  Claim C5, as the code has it.  The claim says the size is
  \<open>number_of_sectors * bytes_per_sector\<close> whenever the record reports a number of sectors.
  \<^verbatim>\<open>_GetStat\<close> tests \<^verbatim>\<open>if number_of_sectors:\<close>, so a record that reports zero sectors
  leaves the size unknown instead of \<open>0\<close>: the entry below has such a record, and its stat
  summary has no size.
\<close>

theorem GetStat_zero_sectors_counterexample:
  "p_is_virtual zero_sectors_entry = False \<and>
   located_part lookup_by_part_index zero_sectors_entry
     = Some \<lparr>allocated = True, start = Some 2048, len = Some 0\<rparr> \<and>
   TSKVsPartGetNumberOfSectors \<lparr>allocated = True, start = Some 2048, len = Some 0\<rparr> = Some 0 \<and>
   fst (GetStat lookup_by_part_index zero_sectors_entry)
     = Inr \<lparr>size_attr = None, type_attr = Some TYPE_FILE, is_allocated_attr = Some True\<rparr> \<and>
   fst (GetStat lookup_by_part_index zero_sectors_entry)
     \<noteq> Inr \<lparr>size_attr = Some (0 * TSKVolumeGetBytesPerSector (GetTSKVolume zero_sectors_fs)),
            type_attr = Some TYPE_FILE, is_allocated_attr = Some True\<rparr>"
  by (simp add: GetStat_def zero_sectors_entry_def zero_sectors_fs_def TSKPartitionFileEntry_def
      GetTSKVsPart_def lookup_by_part_index_def VFSStat_def TSKVsPartGetNumberOfSectors_def
      TSKVolumeGetBytesPerSector_def TSKVsPartIsAllocated_def located_part_def)

text \<open>
  Claim C5, amended.  Whenever \<^verbatim>\<open>_GetStat\<close> returns (the entry is virtual or its record is
  found), the size is \<open>number_of_sectors * bytes_per_sector\<close> when the record reports a
  number of sectors other than zero, and unknown otherwise; the type is \<open>file\<close> for an
  entry that is not virtual and \<open>directory\<close> for a virtual one; and for an entry that is
  not virtual the allocation status is the record's.
\<close>

theorem GetStat_summary:
  assumes "p_is_virtual e \<or> located_part lookup e \<noteq> None"
  shows "\<exists>st. fst (GetStat lookup e) = Inr st \<and>
     size_attr st =
       (case located_part lookup e of
          None \<Rightarrow> None
        | Some part \<Rightarrow>
            (case TSKVsPartGetNumberOfSectors part of
               None \<Rightarrow> None
             | Some number_of_sectors \<Rightarrow>
                 if number_of_sectors = 0 then None
                 else Some (number_of_sectors * TSKVolumeGetBytesPerSector (GetTSKVolume (p_file_system e))))) \<and>
     type_attr st = Some (if p_is_virtual e then TYPE_DIRECTORY else TYPE_FILE) \<and>
     (\<not> p_is_virtual e \<longrightarrow>
        (\<exists>part. located_part lookup e = Some part \<and>
           is_allocated_attr st = Some (TSKVsPartIsAllocated part)))"
proof (cases "located_part lookup e")
  case None
  with assms have v: "p_is_virtual e" by simp
  from None have "p_tsk_vs_part (if p_tsk_vs_part e = None
      then e\<lparr>p_tsk_vs_part := GetTSKVsPart lookup e\<rparr> else e) = None"
    by (simp add: located_part_def split: if_splits)
  with v None show ?thesis
    by (simp add: GetStat_def Let_def VFSStat_def)
next
  case (Some part)
  then have "p_tsk_vs_part (if p_tsk_vs_part e = None
      then e\<lparr>p_tsk_vs_part := GetTSKVsPart lookup e\<rparr> else e) = Some part"
    by (simp add: located_part_def split: if_splits)
  with Some show ?thesis
    by (cases "TSKVsPartGetNumberOfSectors part")
       (simp_all add: GetStat_def Let_def VFSStat_def)
qed

theorem GetStat_summary_witness:
  "(p_is_virtual first_partition_entry \<or> located_part lookup_by_part_index first_partition_entry \<noteq> None) \<and>
   fst (GetStat lookup_by_part_index first_partition_entry)
     = Inr \<lparr>size_attr = Some (350 * 512), type_attr = Some TYPE_FILE, is_allocated_attr = Some True\<rparr> \<and>
   p_is_virtual root_entry \<and>
   fst (GetStat lookup_by_part_index root_entry)
     = Inr \<lparr>size_attr = None, type_attr = Some TYPE_DIRECTORY, is_allocated_attr = None\<rparr>"
proof -
  have h: "p_is_virtual first_partition_entry \<or>
      located_part lookup_by_part_index first_partition_entry \<noteq> None"
    by (simp add: located_part_def first_partition_entry_def TSKPartitionFileEntry_def
        GetTSKVsPart_def lookup_by_part_index_def three_fs_def three_records_def)
  have loc: "located_part lookup_by_part_index first_partition_entry
      = Some \<lparr>allocated = True, start = Some 1, len = Some 350\<rparr>"
    by (simp add: located_part_def first_partition_entry_def TSKPartitionFileEntry_def
        GetTSKVsPart_def lookup_by_part_index_def three_fs_def three_records_def)
  have nv: "\<not> p_is_virtual first_partition_entry"
    by (simp add: first_partition_entry_def TSKPartitionFileEntry_def)
  have bps: "TSKVolumeGetBytesPerSector (GetTSKVolume (p_file_system first_partition_entry)) = 512"
    by (simp add: first_partition_entry_def TSKPartitionFileEntry_def three_fs_def
        three_records_def TSKVolumeGetBytesPerSector_def)
  from GetStat_summary [OF h] obtain st where
    st: "fst (GetStat lookup_by_part_index first_partition_entry) = Inr st"
    and sz: "size_attr st = Some (350 * 512)"
    and ty: "type_attr st = Some TYPE_FILE"
    and al: "is_allocated_attr st = Some True"
    by (auto simp: loc nv bps TSKVsPartGetNumberOfSectors_def TSKVsPartIsAllocated_def)
  have first: "fst (GetStat lookup_by_part_index first_partition_entry)
     = Inr \<lparr>size_attr = Some (350 * 512), type_attr = Some TYPE_FILE, is_allocated_attr = Some True\<rparr>"
    using st sz ty al by (cases st) simp
  have rv: "p_is_virtual root_entry"
    by (simp add: root_entry_def TSKPartitionFileEntry_def)
  have root: "fst (GetStat lookup_by_part_index root_entry)
     = Inr \<lparr>size_attr = None, type_attr = Some TYPE_DIRECTORY, is_allocated_attr = None\<rparr>"
    by (simp add: GetStat_def root_entry_def TSKPartitionFileEntry_def GetTSKVsPart_def
        lookup_by_part_index_def root_path_spec_def VFSStat_def)
  from h first rv root show ?thesis by simp
qed

text \<open>
  Claim C7.  For an entry that is not virtual and whose record cannot be located from its
  descriptor, \<^verbatim>\<open>_GetStat\<close> raises \<open>BackEndError\<close>, the backend-invariant error; for a
  virtual entry it returns a stat summary, record or no record.
\<close>

theorem GetStat_missing_record:
  "(\<not> p_is_virtual e \<and> located_part lookup e = None \<longrightarrow>
      fst (GetStat lookup e) = Inl BackEndError) \<and>
   (p_is_virtual e \<longrightarrow> (\<exists>st. fst (GetStat lookup e) = Inr st))"
proof (intro conjI impI)
  assume "\<not> p_is_virtual e \<and> located_part lookup e = None"
  then have "\<not> p_is_virtual e" and "p_tsk_vs_part (if p_tsk_vs_part e = None
      then e\<lparr>p_tsk_vs_part := GetTSKVsPart lookup e\<rparr> else e) = None"
    by (simp_all add: located_part_def split: if_splits)
  then show "fst (GetStat lookup e) = Inl BackEndError"
    by (simp add: GetStat_def Let_def)
next
  assume "p_is_virtual e"
  then show "\<exists>st. fst (GetStat lookup e) = Inr st"
    by (simp add: GetStat_def Let_def)
qed

theorem GetStat_missing_record_witness:
  "\<not> p_is_virtual missing_partition_entry \<and>
   located_part lookup_by_part_index missing_partition_entry = None \<and>
   fst (GetStat lookup_by_part_index missing_partition_entry) = Inl BackEndError \<and>
   p_is_virtual root_entry \<and>
   located_part lookup_by_part_index root_entry = None \<and>
   (\<exists>st. fst (GetStat lookup_by_part_index root_entry) = Inr st)"
proof -
  have nv: "\<not> p_is_virtual missing_partition_entry"
    by (simp add: missing_partition_entry_def TSKPartitionFileEntry_def)
  have none: "located_part lookup_by_part_index missing_partition_entry = None"
    by (simp add: located_part_def missing_partition_entry_def TSKPartitionFileEntry_def
        GetTSKVsPart_def lookup_by_part_index_def three_fs_def three_records_def)
  have rv: "p_is_virtual root_entry"
    by (simp add: root_entry_def TSKPartitionFileEntry_def)
  have rnone: "located_part lookup_by_part_index root_entry = None"
    by (simp add: located_part_def root_entry_def TSKPartitionFileEntry_def
        GetTSKVsPart_def lookup_by_part_index_def root_path_spec_def)
  from GetStat_missing_record [of missing_partition_entry lookup_by_part_index]
       GetStat_missing_record [of root_entry lookup_by_part_index] nv none rv rnone
  show ?thesis by simp
qed

section \<open>The file object of a partition entry\<close>

lemma GetFileObject_cached:
  "p_file_object e = Some fo \<Longrightarrow> GetFileObject open_error lookup e n = (Inr fo, e, n)"
  by (simp add: GetFileObject_def)

lemma GetFileObject_first:
  assumes "p_file_object e = None"
  shows "\<exists>fo e'. p_file_object e' = Some fo \<and> fo_id fo = n \<and>
           snd (GetFileObject open_error lookup e n) = (e', n + 1) \<and>
           fst (GetFileObject open_error lookup e n) =
             (case open_error (fo\<lparr>fo_is_open := False\<rparr>) of Some err \<Rightarrow> Inl err | None \<Rightarrow> Inr fo) \<and>
           fo_is_open fo = (open_error (fo\<lparr>fo_is_open := False\<rparr>) = None)"
  using assms
  by (cases "open_error \<lparr>fo_id = n, fo_tsk_volume = GetTSKVolume (p_file_system e),
         fo_tsk_vs_part = located_part lookup e, fo_is_open = False\<rparr>")
     (auto simp: GetFileObject_def Let_def located_part_def)

lemma later_calls:
  "p_file_object e = Some fo \<Longrightarrow>
     (call_GetFileObject open_error lookup ^^ k) (Inr fo, e, n) = (Inr fo, e, n)"
  by (induction k) (simp_all add: call_GetFileObject_def GetFileObject_cached)

text \<open>
  Claim C9.  On an entry instance that has no file object yet, \<^verbatim>\<open>GetFileObject\<close>
  constructs exactly one (the count of constructed objects goes from \<open>n\<close> to \<open>n + 1\<close>),
  caches it on the entry and, when \<^verbatim>\<open>open()\<close> succeeds, returns it opened.  Every later
  call on the same instance, however many, returns that same cached object and constructs
  nothing: the entry and the count stay as the first call left them.
\<close>

theorem GetFileObject_at_most_once:
  assumes fresh: "p_file_object e = None"
  shows "\<exists>fo e'.
     snd (GetFileObject open_error lookup e n) = (e', n + 1) \<and>
     p_file_object e' = Some fo \<and> fo_id fo = n \<and>
     (open_error (fo\<lparr>fo_is_open := False\<rparr>) = None \<longrightarrow>
        fst (GetFileObject open_error lookup e n) = Inr fo \<and> fo_is_open fo) \<and>
     (\<forall>k > 0. (call_GetFileObject open_error lookup ^^ k) (GetFileObject open_error lookup e n)
               = (Inr fo, e', n + 1))"
proof -
  from GetFileObject_first [OF fresh, where n = n and open_error = open_error and lookup = lookup]
  obtain fo :: file_object and e' :: tsk_partition_file_entry where c: "p_file_object e' = Some fo" "fo_id fo = n"
    and s: "snd (GetFileObject open_error lookup e n) = (e', n + 1)"
    and f: "fst (GetFileObject open_error lookup e n) =
             (case open_error (fo\<lparr>fo_is_open := False\<rparr>) of Some err \<Rightarrow> Inl err | None \<Rightarrow> Inr fo)"
    and o: "fo_is_open fo = (open_error (fo\<lparr>fo_is_open := False\<rparr>) = None)"
    by (elim exE conjE) (rule that)
  have later: "(call_GetFileObject open_error lookup ^^ k) (GetFileObject open_error lookup e n)
               = (Inr fo, e', n + 1)" if "k > 0" for k
  proof -
    from that obtain k' where k: "k = Suc k'" by (cases k) auto
    have one: "call_GetFileObject open_error lookup (GetFileObject open_error lookup e n)
        = (Inr fo, e', n + 1)"
      using s c(1) by (cases "GetFileObject open_error lookup e n")
        (simp add: call_GetFileObject_def GetFileObject_cached)
    show ?thesis
      unfolding k funpow_Suc_right o_apply one
      by (rule later_calls [OF c(1)])
  qed
  from s c f o later show ?thesis by auto
qed

theorem GetFileObject_at_most_once_witness:
  "p_file_object first_partition_entry = None \<and>
   GetFileObject always_opens lookup_by_part_index first_partition_entry 0 =
     (Inr \<lparr>fo_id = 0, fo_tsk_volume = three_records,
            fo_tsk_vs_part = Some \<lparr>allocated = True, start = Some 1, len = Some 350\<rparr>,
            fo_is_open = True\<rparr>,
      first_partition_entry
        \<lparr>p_file_object := Some \<lparr>fo_id = 0, fo_tsk_volume = three_records,
            fo_tsk_vs_part = Some \<lparr>allocated = True, start = Some 1, len = Some 350\<rparr>,
            fo_is_open = True\<rparr>,
         p_tsk_vs_part := Some \<lparr>allocated = True, start = Some 1, len = Some 350\<rparr>\<rparr>,
      1) \<and>
   (call_GetFileObject always_opens lookup_by_part_index ^^ 3)
      (GetFileObject always_opens lookup_by_part_index first_partition_entry 0) =
     (Inr \<lparr>fo_id = 0, fo_tsk_volume = three_records,
            fo_tsk_vs_part = Some \<lparr>allocated = True, start = Some 1, len = Some 350\<rparr>,
            fo_is_open = True\<rparr>,
      first_partition_entry
        \<lparr>p_file_object := Some \<lparr>fo_id = 0, fo_tsk_volume = three_records,
            fo_tsk_vs_part = Some \<lparr>allocated = True, start = Some 1, len = Some 350\<rparr>,
            fo_is_open = True\<rparr>,
         p_tsk_vs_part := Some \<lparr>allocated = True, start = Some 1, len = Some 350\<rparr>\<rparr>,
      1) \<and>
   fst (GetFileObject never_opens lookup_by_part_index first_partition_entry 0) = Inl ValueError \<and>
   snd (snd ((call_GetFileObject never_opens lookup_by_part_index ^^ 3)
      (GetFileObject never_opens lookup_by_part_index first_partition_entry 0))) = 1"
proof -
  have fresh: "p_file_object first_partition_entry = None"
    by (simp add: first_partition_entry_def TSKPartitionFileEntry_def)
  have first: "GetFileObject always_opens lookup_by_part_index first_partition_entry 0 =
     (Inr \<lparr>fo_id = 0, fo_tsk_volume = three_records,
            fo_tsk_vs_part = Some \<lparr>allocated = True, start = Some 1, len = Some 350\<rparr>,
            fo_is_open = True\<rparr>,
      first_partition_entry
        \<lparr>p_file_object := Some \<lparr>fo_id = 0, fo_tsk_volume = three_records,
            fo_tsk_vs_part = Some \<lparr>allocated = True, start = Some 1, len = Some 350\<rparr>,
            fo_is_open = True\<rparr>,
         p_tsk_vs_part := Some \<lparr>allocated = True, start = Some 1, len = Some 350\<rparr>\<rparr>,
      1)"
    by (simp add: GetFileObject_def first_partition_entry_def TSKPartitionFileEntry_def
        GetTSKVsPart_def lookup_by_part_index_def three_fs_def three_records_def always_opens_def
        Let_def)
  have fails: "fst (GetFileObject never_opens lookup_by_part_index first_partition_entry 0)
      = Inl ValueError"
    by (simp add: GetFileObject_def first_partition_entry_def TSKPartitionFileEntry_def
        Let_def never_opens_def)
  from GetFileObject_at_most_once [OF fresh, where n = 0 and open_error = always_opens
      and lookup = lookup_by_part_index]
  obtain fo :: file_object and e' :: tsk_partition_file_entry where
    s: "snd (GetFileObject always_opens lookup_by_part_index first_partition_entry 0) = (e', 0 + 1)"
    and r: "always_opens (fo\<lparr>fo_is_open := False\<rparr>) = None \<longrightarrow>
        fst (GetFileObject always_opens lookup_by_part_index first_partition_entry 0) = Inr fo \<and>
        fo_is_open fo"
    and l: "\<forall>k>0. (call_GetFileObject always_opens lookup_by_part_index ^^ k)
        (GetFileObject always_opens lookup_by_part_index first_partition_entry 0) = (Inr fo, e', 0 + 1)"
    by (elim exE conjE) (rule that)
  from r have "fst (GetFileObject always_opens lookup_by_part_index first_partition_entry 0) = Inr fo"
    by (simp add: always_opens_def)
  with s first l have later: "(call_GetFileObject always_opens lookup_by_part_index ^^ 3)
      (GetFileObject always_opens lookup_by_part_index first_partition_entry 0) =
      GetFileObject always_opens lookup_by_part_index first_partition_entry 0"
    by simp
  from GetFileObject_at_most_once [OF fresh, where n = 0 and open_error = never_opens
      and lookup = lookup_by_part_index]
  have "snd (snd ((call_GetFileObject never_opens lookup_by_part_index ^^ 3)
      (GetFileObject never_opens lookup_by_part_index first_partition_entry 0))) = 1"
    by auto
  with fresh first later fails show ?thesis by simp
qed

section \<open>Opening a layer\<close>

text \<open>
  The TAR file system keeps the discipline: when \<^verbatim>\<open>TARFileSystem._Open\<close> has acquired
  the parent's file object and \<^verbatim>\<open>tarfile.open\<close> raises, the file object is closed
  before the error leaves \<^verbatim>\<open>_Open\<close>, and the error that leaves is the decoder's
  (unless \<^verbatim>\<open>close()\<close> itself raises).  On every failure path of \<^verbatim>\<open>_Open\<close> no file
  object that the call acquired is still held.
\<close>

lemma TARFileSystem_Open_releases_parent:
  "(parent ps = Some par \<and> resolver_OpenFileObject env par = Inr file_object \<and>
      tarfile_open env file_object = Inl e \<longrightarrow>
      (\<exists>err. TARFileSystem_Open env fs ps =
          (Inl err, [ResolverOpenFileObject par (Inr file_object), TarfileOpen file_object,
                     FileObjectClose file_object]) \<and>
         (file_object_close env file_object = None \<longrightarrow> err = e))) \<and>
   (\<forall>err. fst (TARFileSystem_Open env fs ps) = Inl err \<longrightarrow>
      held_after [] (snd (TARFileSystem_Open env fs ps)) = [])"
proof (intro conjI allI impI)
  assume "parent ps = Some par \<and> resolver_OpenFileObject env par = Inr file_object \<and>
      tarfile_open env file_object = Inl e"
  then show "\<exists>err. TARFileSystem_Open env fs ps =
          (Inl err, [ResolverOpenFileObject par (Inr file_object), TarfileOpen file_object,
                     FileObjectClose file_object]) \<and>
         (file_object_close env file_object = None \<longrightarrow> err = e)"
    by (cases "file_object_close env file_object")
       (simp_all add: TARFileSystem_Open_def HasParent_def)
next
  fix err assume "fst (TARFileSystem_Open env fs ps) = Inl err"
  then show "held_after [] (snd (TARFileSystem_Open env fs ps)) = []"
    by (auto simp: TARFileSystem_Open_def HasParent_def split: if_splits option.splits sum.splits)
qed

lemma TARFileSystem_Open_corrupt_container:
  "parent tar_path_spec = Some physical_source \<and>
   resolver_OpenFileObject corrupt_container physical_source = Inr 7 \<and>
   tarfile_open corrupt_container 7 = Inl IOError \<and>
   TARFileSystem_Open corrupt_container closed_tar_file_system tar_path_spec =
     (Inl IOError, [ResolverOpenFileObject physical_source (Inr 7), TarfileOpen 7, FileObjectClose 7]) \<and>
   held_after [] (snd (TARFileSystem_Open corrupt_container closed_tar_file_system tar_path_spec)) = []"
proof -
  have h: "parent tar_path_spec = Some physical_source \<and>
     resolver_OpenFileObject corrupt_container physical_source = Inr 7 \<and>
     tarfile_open corrupt_container 7 = Inl IOError \<and>
     file_object_close corrupt_container 7 = None"
    by (simp add: tar_path_spec_def corrupt_container_def)
  from TARFileSystem_Open_releases_parent [where ps = tar_path_spec and par = physical_source
      and env = corrupt_container and file_object = 7 and e = IOError and fs = closed_tar_file_system] h
  show ?thesis by auto
qed

text \<open>
  Claim C4.  For a descriptor without a parent, opening the TAR file system and opening the
  VHD file object both fail with \<open>PathSpecError\<close>, the invalid-descriptor error, before
  any I/O: no event is recorded, so the resolver was not asked for a parent and no decoder
  was invoked.
\<close>

theorem no_parent_fails_before_io:
  assumes "\<not> HasParent ps"
  shows "TARFileSystem_Open env fs ps = (Inl PathSpecError, []) \<and>
         VhdiFile_OpenFileObject env ps = (Inl PathSpecError, [])"
  using assms by (simp add: TARFileSystem_Open_def VhdiFile_OpenFileObject_def)

theorem no_parent_fails_before_io_witness:
  "\<not> HasParent orphan_path_spec \<and>
   TARFileSystem_Open working_container closed_tar_file_system orphan_path_spec = (Inl PathSpecError, []) \<and>
   VhdiFile_OpenFileObject working_container orphan_path_spec = (Inl PathSpecError, [])"
proof -
  have h: "\<not> HasParent orphan_path_spec"
    by (simp add: HasParent_def orphan_path_spec_def)
  from no_parent_fails_before_io [OF h] h show ?thesis by simp
qed

text \<open>
  \<^verbatim>\<open>VhdiFile._OpenFileObject\<close> has no handler around its decoder: whenever
  \<^verbatim>\<open>open_file_object\<close> raises on the parent's file object, the error leaves with the
  file object acquired and never closed.
\<close>

lemma VhdiFile_OpenFileObject_decoder_raises:
  assumes "parent ps = Some par" "resolver_OpenFileObject env par = Inr file_object"
    and "pyvhdi_open_file_object env file_object = Some e"
  shows "VhdiFile_OpenFileObject env ps =
           (Inl e, [ResolverOpenFileObject par (Inr file_object), PyvhdiOpenFileObject file_object]) \<and>
         held_after [] (snd (VhdiFile_OpenFileObject env ps)) = [file_object]"
  using assms by (simp add: VhdiFile_OpenFileObject_def HasParent_def)

text \<open>
  Claim C3.  The claim says that when opening a layer fails after the parent's file object
  has been acquired, the file object is closed before the error is propagated, so that no
  handle is leaked on any failure path.  \<^verbatim>\<open>TARFileSystem._Open\<close> does so;
  \<^verbatim>\<open>VhdiFile._OpenFileObject\<close> does not.  With a VHD descriptor on the raw image, a
  resolver that hands out file object 7 and a decoder that raises \<open>IOError\<close>, the call
  returns the error after two events, none of them a close, and file object 7 is still
  held; the TAR file system in the same environment holds nothing.
\<close>

theorem VhdiFile_OpenFileObject_leaks_parent:
  "parent vhdi_path_spec = Some physical_source \<and>
   resolver_OpenFileObject corrupt_container physical_source = Inr 7 \<and>
   pyvhdi_open_file_object corrupt_container 7 = Some IOError \<and>
   VhdiFile_OpenFileObject corrupt_container vhdi_path_spec =
     (Inl IOError, [ResolverOpenFileObject physical_source (Inr 7), PyvhdiOpenFileObject 7]) \<and>
   held_after [] (snd (VhdiFile_OpenFileObject corrupt_container vhdi_path_spec)) = [7] \<and>
   held_after [] (snd (TARFileSystem_Open corrupt_container closed_tar_file_system tar_path_spec)) = []"
  by (simp add: VhdiFile_OpenFileObject_def TARFileSystem_Open_def HasParent_def
      vhdi_path_spec_def tar_path_spec_def corrupt_container_def)

section \<open>Looking up entries of a TAR file system\<close>



lemma virtual_directory_loop_iff:
  "virtual_directory_loop names pre = (\<exists>n \<in> set names. startswith n pre)"
  by (induction names) auto

lemma find_SomeD: "find P xs = Some x \<Longrightarrow> P x \<and> x \<in> set xs"
  by (induction xs) (auto split: if_splits)

lemma getmember_Inr_name: "getmember tar n = Inr m \<Longrightarrow> n \<in> set (getnames tar)"
  by (auto simp: getmember_def getnames_def split: option.splits dest!: find_SomeD)

lemma getmember_Inl: "getmember tar n = Inl e \<Longrightarrow> e = KeyError \<and> n \<notin> set (getnames tar)"
  by (auto simp: getmember_def getnames_def find_None_iff split: option.splits)

lemma getmember_missing: "n \<notin> set (getnames tar) \<Longrightarrow> getmember tar n = Inl KeyError"
  by (cases "getmember tar n") (auto dest: getmember_Inl getmember_Inr_name)






text \<open>
  Claim C10.  \<^verbatim>\<open>GetFileEntryByPathSpec\<close> returns \<open>None\<close> exactly when
  \<^verbatim>\<open>FileEntryExistsByPathSpec\<close> returns \<open>False\<close>, and an entry exactly when it returns
  \<open>True\<close>.  The root location exists and yields a virtual root entry.  In an opened file
  system a location that is a prefix of a member's name exists and yields an entry, and
  where no member has that very name (no native record backs the location) the entry is
  virtual and carries no record.
\<close>

theorem get_entry_iff_exists:
  "(GetFileEntryByPathSpec fs ps = Inr None) = (FileEntryExistsByPathSpec fs ps = Inr False) \<and>
   (\<exists>entry. GetFileEntryByPathSpec fs ps = Inr (Some entry))
     = (FileEntryExistsByPathSpec fs ps = Inr True) \<and>
   (location ps = Some TAR_LOCATION_ROOT \<longrightarrow>
      FileEntryExistsByPathSpec fs ps = Inr True \<and>
      GetFileEntryByPathSpec fs ps = Inr (Some (TARFileEntry ps True True None))) \<and>
   (\<forall>tar s n. tfs_tar_file fs = Some tar \<and> location ps = Some (CHR ''/'' # s) \<and> s \<noteq> [] \<and>
      n \<in> set (getnames tar) \<and> startswith n s \<longrightarrow>
      FileEntryExistsByPathSpec fs ps = Inr True \<and>
      (\<exists>entry. GetFileEntryByPathSpec fs ps = Inr (Some entry)) \<and>
      (s \<notin> set (getnames tar) \<longrightarrow>
         GetFileEntryByPathSpec fs ps = Inr (Some (TARFileEntry ps False True None))))"
proof -
  have prefix: "FileEntryExistsByPathSpec fs ps = Inr True \<and>
      (\<exists>entry. GetFileEntryByPathSpec fs ps = Inr (Some entry)) \<and>
      (s \<notin> set (getnames tar) \<longrightarrow>
         GetFileEntryByPathSpec fs ps = Inr (Some (TARFileEntry ps False True None)))"
    if h: "tfs_tar_file fs = Some tar \<and> location ps = Some (CHR ''/'' # s) \<and> s \<noteq> [] \<and>
      n \<in> set (getnames tar) \<and> startswith n s" for tar s n
  proof (cases "getmember tar s")
    case (Inl e)
    then have e: "e = KeyError" and "s \<notin> set (getnames tar)"
      by (auto dest: getmember_Inl)
    from h have "virtual_directory_loop (getnames tar) s"
      by (auto simp: virtual_directory_loop_iff)
    with h Inl e show ?thesis
      by (simp add: FileEntryExistsByPathSpec_def GetFileEntryByPathSpec_def
          startswith_def TAR_LOCATION_ROOT_def)
  next
    case (Inr m)
    then have "s \<in> set (getnames tar)" by (rule getmember_Inr_name)
    with h Inr show ?thesis
      by (simp add: FileEntryExistsByPathSpec_def GetFileEntryByPathSpec_def
          startswith_def TAR_LOCATION_ROOT_def)
  qed
  have none: "(GetFileEntryByPathSpec fs ps = Inr None) = (FileEntryExistsByPathSpec fs ps = Inr False)"
    by (cases "FileEntryExistsByPathSpec fs ps")
       (auto simp: GetFileEntryByPathSpec_def FileEntryExistsByPathSpec_def
          split: option.splits if_splits sum.splits error.splits bool.splits)
  have some: "(\<exists>entry. GetFileEntryByPathSpec fs ps = Inr (Some entry))
     = (FileEntryExistsByPathSpec fs ps = Inr True)"
    by (cases "FileEntryExistsByPathSpec fs ps")
       (auto simp: GetFileEntryByPathSpec_def FileEntryExistsByPathSpec_def
          split: option.splits if_splits sum.splits error.splits bool.splits)
  have root: "FileEntryExistsByPathSpec fs ps = Inr True \<and>
      GetFileEntryByPathSpec fs ps = Inr (Some (TARFileEntry ps True True None))"
    if "location ps = Some TAR_LOCATION_ROOT"
    using that
    by (simp add: FileEntryExistsByPathSpec_def GetFileEntryByPathSpec_def
        startswith_def TAR_LOCATION_ROOT_def)
  from none some root prefix show ?thesis by blast
qed

theorem get_entry_iff_exists_witness:
  "FileEntryExistsByPathSpec opened_tar_file_system (tar_location ''/'') = Inr True \<and>
   GetFileEntryByPathSpec opened_tar_file_system (tar_location ''/'')
     = Inr (Some (TARFileEntry (tar_location ''/'') True True None)) \<and>
   ''docs/readme.txt'' \<in> set (getnames \<lparr>members = [TarInfo ''syslog'', TarInfo ''docs/readme.txt'']\<rparr>) \<and>
   startswith ''docs/readme.txt'' ''docs'' \<and>
   FileEntryExistsByPathSpec opened_tar_file_system (tar_location ''/docs'') = Inr True \<and>
   GetFileEntryByPathSpec opened_tar_file_system (tar_location ''/docs'')
     = Inr (Some (TARFileEntry (tar_location ''/docs'') False True None))"
proof -
  let ?tar = "\<lparr>members = [TarInfo ''syslog'', TarInfo ''docs/readme.txt'']\<rparr>"
  have root: "location (tar_location ''/'') = Some TAR_LOCATION_ROOT"
    by (simp add: tar_location_def TAR_LOCATION_ROOT_def)
  have pre: "tfs_tar_file opened_tar_file_system = Some ?tar \<and>
      location (tar_location ''/docs'') = Some (CHR ''/'' # ''docs'') \<and> ''docs'' \<noteq> [] \<and>
      ''docs/readme.txt'' \<in> set (getnames ?tar) \<and> startswith ''docs/readme.txt'' ''docs''"
    by (simp add: opened_tar_file_system_def tar_location_def getnames_def startswith_def)
  have nomem: "''docs'' \<notin> set (getnames ?tar)"
    by (simp add: getnames_def)
  from get_entry_iff_exists [of opened_tar_file_system "tar_location ''/''"] root
  have r: "FileEntryExistsByPathSpec opened_tar_file_system (tar_location ''/'') = Inr True \<and>
      GetFileEntryByPathSpec opened_tar_file_system (tar_location ''/'')
        = Inr (Some (TARFileEntry (tar_location ''/'') True True None))"
    by blast
  from get_entry_iff_exists [of opened_tar_file_system "tar_location ''/docs''"] pre nomem
  have d: "FileEntryExistsByPathSpec opened_tar_file_system (tar_location ''/docs'') = Inr True \<and>
      GetFileEntryByPathSpec opened_tar_file_system (tar_location ''/docs'')
        = Inr (Some (TARFileEntry (tar_location ''/docs'') False True None))"
    by blast
  from r d pre show ?thesis by simp
qed

text \<open>A location that is the name of a member yields the entry of that member.\<close>

lemma member_location_entry:
  "GetFileEntryByPathSpec opened_tar_file_system (tar_location ''/syslog'')
     = Inr (Some (TARFileEntry (tar_location ''/syslog'') False False (Some (TarInfo ''syslog''))))"
  by (simp add: GetFileEntryByPathSpec_def FileEntryExistsByPathSpec_def opened_tar_file_system_def
      tar_location_def startswith_def TAR_LOCATION_ROOT_def getmember_def)

end
